theory Spec2Isabelle
  imports Complex_Main "HOL-Library.Multiset" "HOL-Library.Code_Target_Nat"
begin

section \<open>Text: Python strings as lists of code points\<close>

text \<open>
  A Python \<open>str\<close> is a sequence of Unicode code points, so a character is a natural
  number and a string a list of them. ASCII literals are written through \<open>ascii\<close>;
  the few non-ASCII characters of the source are given by their code point.

  The character tables of the Python runtime (\<open>str.isspace\<close> and the class \<open>\s\<close>, the
  class \<open>\d\<close> with the values that \<open>int\<close> and \<open>float\<close> read, \<open>str.upper\<close>,
  \<open>str.lower\<close>) are those of CPython 3.11, that is of Unicode 14.0, for every code
  point. Each table has the ASCII range written out and the rest as a list.
\<close>

type_synonym uchar = nat
type_synonym ustring = "uchar list"

definition ascii :: "string \<Rightarrow> ustring" where
  "ascii s = map of_char s"

definition py_isspace :: "uchar \<Rightarrow> bool" where
  "py_isspace c \<longleftrightarrow>
     (9 \<le> c \<and> c \<le> 13) \<or> (28 \<le> c \<and> c \<le> 32) \<or> c = 133 \<or> c = 160 \<or> c = 5760 \<or>
     (8192 \<le> c \<and> c \<le> 8202) \<or> c = 8232 \<or> c = 8233 \<or> c = 8239 \<or> c = 8287 \<or> c = 12288"

text \<open>
  The decimal digits: the class \<open>\d\<close> of \<open>re\<close> on a \<open>str\<close> pattern is the category Nd.
  Its characters come in runs of ten, from the zero to the nine of a script;
  \<open>digit_zeros\<close> lists the zeros outside ASCII.
\<close>

definition digit_zeros :: "uchar list" where
  "digit_zeros =
     [1632, 1776, 1984, 2406, 2534, 2662, 2790, 2918, 3046, 3174, 3302, 3430, 3558, 3664,
      3792, 3872, 4160, 4240, 6112, 6160, 6470, 6608, 6784, 6800, 6992, 7088, 7232, 7248,
      42528, 43216, 43264, 43472, 43504, 43600, 44016, 65296, 66720, 68912, 69734, 69872,
      69942, 70096, 70384, 70736, 70864, 71248, 71360, 71472, 71904, 72016, 72784, 73040,
      73120, 92768, 92864, 93008, 120782, 120792, 120802, 120812, 120822, 123200, 123632,
      125264, 130032]"

fun decimal_in :: "uchar list \<Rightarrow> uchar \<Rightarrow> nat option" where
  "decimal_in [] c = None"
| "decimal_in (z # zs) c = (if z \<le> c \<and> c \<le> z + 9 then Some (c - z) else decimal_in zs c)"

definition py_decimal :: "uchar \<Rightarrow> nat option" where
  "py_decimal c =
     (if c < 128 then (if 48 \<le> c \<and> c \<le> 57 then Some (c - 48) else None)
      else decimal_in digit_zeros c)"

definition py_isdigit :: "uchar \<Rightarrow> bool" where
  "py_isdigit c \<longleftrightarrow> py_decimal c \<noteq> None"

definition digit_of :: "uchar \<Rightarrow> nat" where
  "digit_of c = (case py_decimal c of Some v \<Rightarrow> v | None \<Rightarrow> 0)"

text \<open>
  The case mappings. A run \<open>(lo, hi, step, target)\<close> maps the code points \<open>lo\<close>,
  \<open>lo + step\<close>, ..., up to \<open>hi\<close>, to \<open>target\<close>, \<open>target + step\<close>, ...; the other
  mappings of \<open>str.upper\<close> give several characters and are listed one by one.
\<close>

type_synonym case_run = "nat \<times> nat \<times> nat \<times> nat"

fun run_lookup :: "case_run list \<Rightarrow> uchar \<Rightarrow> uchar option" where
  "run_lookup [] c = None"
| "run_lookup ((lo, hi, step, target) # rs) c =
     (if lo \<le> c \<and> c \<le> hi \<and> (c - lo) mod step = 0 then Some (target + (c - lo))
      else run_lookup rs c)"

definition upper_runs :: "case_run list" where
  "upper_runs =
     [(181, 181, 1, 924), (224, 246, 1, 192), (248, 254, 1, 216), (255, 255, 1, 376), (257,
      303, 2, 256), (305, 305, 1, 73), (307, 311, 2, 306), (314, 328, 2, 313), (331, 375, 2,
      330), (378, 382, 2, 377), (383, 383, 1, 83), (384, 384, 1, 579), (387, 389, 2, 386),
      (392, 392, 1, 391), (396, 396, 1, 395), (402, 402, 1, 401), (405, 405, 1, 502), (409,
      409, 1, 408), (410, 410, 1, 573), (414, 414, 1, 544), (417, 421, 2, 416), (424, 424,
      1, 423), (429, 429, 1, 428), (432, 432, 1, 431), (436, 438, 2, 435), (441, 441, 1,
      440), (445, 445, 1, 444), (447, 447, 1, 503), (453, 453, 1, 452), (454, 454, 1, 452),
      (456, 456, 1, 455), (457, 457, 1, 455), (459, 459, 1, 458), (460, 460, 1, 458), (462,
      476, 2, 461), (477, 477, 1, 398), (479, 495, 2, 478), (498, 498, 1, 497), (499, 499,
      1, 497), (501, 501, 1, 500), (505, 543, 2, 504), (547, 563, 2, 546), (572, 572, 1,
      571), (575, 576, 1, 11390), (578, 578, 1, 577), (583, 591, 2, 582), (592, 592, 1,
      11375), (593, 593, 1, 11373), (594, 594, 1, 11376), (595, 595, 1, 385), (596, 596, 1,
      390), (598, 599, 1, 393), (601, 601, 1, 399), (603, 603, 1, 400), (604, 604, 1,
      42923), (608, 608, 1, 403), (609, 609, 1, 42924), (611, 611, 1, 404), (613, 613, 1,
      42893), (614, 614, 1, 42922), (616, 616, 1, 407), (617, 617, 1, 406), (618, 618, 1,
      42926), (619, 619, 1, 11362), (620, 620, 1, 42925), (623, 623, 1, 412), (625, 625, 1,
      11374), (626, 626, 1, 413), (629, 629, 1, 415), (637, 637, 1, 11364), (640, 640, 1,
      422), (642, 642, 1, 42949), (643, 643, 1, 425), (647, 647, 1, 42929), (648, 648, 1,
      430), (649, 649, 1, 580), (650, 651, 1, 433), (652, 652, 1, 581), (658, 658, 1, 439),
      (669, 669, 1, 42930), (670, 670, 1, 42928), (837, 837, 1, 921), (881, 883, 2, 880),
      (887, 887, 1, 886), (891, 893, 1, 1021), (940, 940, 1, 902), (941, 943, 1, 904), (945,
      961, 1, 913), (962, 962, 1, 931), (963, 971, 1, 931), (972, 972, 1, 908), (973, 974,
      1, 910), (976, 976, 1, 914), (977, 977, 1, 920), (981, 981, 1, 934), (982, 982, 1,
      928), (983, 983, 1, 975), (985, 1007, 2, 984), (1008, 1008, 1, 922), (1009, 1009, 1,
      929), (1010, 1010, 1, 1017), (1011, 1011, 1, 895), (1013, 1013, 1, 917), (1016, 1016,
      1, 1015), (1019, 1019, 1, 1018), (1072, 1103, 1, 1040), (1104, 1119, 1, 1024), (1121,
      1153, 2, 1120), (1163, 1215, 2, 1162), (1218, 1230, 2, 1217), (1231, 1231, 1, 1216),
      (1233, 1327, 2, 1232), (1377, 1414, 1, 1329), (4304, 4346, 1, 7312), (4349, 4351, 1,
      7357), (5112, 5117, 1, 5104), (7296, 7296, 1, 1042), (7297, 7297, 1, 1044), (7298,
      7298, 1, 1054), (7299, 7300, 1, 1057), (7301, 7301, 1, 1058), (7302, 7302, 1, 1066),
      (7303, 7303, 1, 1122), (7304, 7304, 1, 42570), (7545, 7545, 1, 42877), (7549, 7549, 1,
      11363), (7566, 7566, 1, 42950), (7681, 7829, 2, 7680), (7835, 7835, 1, 7776), (7841,
      7935, 2, 7840), (7936, 7943, 1, 7944), (7952, 7957, 1, 7960), (7968, 7975, 1, 7976),
      (7984, 7991, 1, 7992), (8000, 8005, 1, 8008), (8017, 8023, 2, 8025), (8032, 8039, 1,
      8040), (8048, 8049, 1, 8122), (8050, 8053, 1, 8136), (8054, 8055, 1, 8154), (8056,
      8057, 1, 8184), (8058, 8059, 1, 8170), (8060, 8061, 1, 8186), (8112, 8113, 1, 8120),
      (8126, 8126, 1, 921), (8144, 8145, 1, 8152), (8160, 8161, 1, 8168), (8165, 8165, 1,
      8172), (8526, 8526, 1, 8498), (8560, 8575, 1, 8544), (8580, 8580, 1, 8579), (9424,
      9449, 1, 9398), (11312, 11359, 1, 11264), (11361, 11361, 1, 11360), (11365, 11365, 1,
      570), (11366, 11366, 1, 574), (11368, 11372, 2, 11367), (11379, 11379, 1, 11378),
      (11382, 11382, 1, 11381), (11393, 11491, 2, 11392), (11500, 11502, 2, 11499), (11507,
      11507, 1, 11506), (11520, 11557, 1, 4256), (11559, 11559, 1, 4295), (11565, 11565, 1,
      4301), (42561, 42605, 2, 42560), (42625, 42651, 2, 42624), (42787, 42799, 2, 42786),
      (42803, 42863, 2, 42802), (42874, 42876, 2, 42873), (42879, 42887, 2, 42878), (42892,
      42892, 1, 42891), (42897, 42899, 2, 42896), (42900, 42900, 1, 42948), (42903, 42921,
      2, 42902), (42933, 42947, 2, 42932), (42952, 42954, 2, 42951), (42961, 42961, 1,
      42960), (42967, 42969, 2, 42966), (42998, 42998, 1, 42997), (43859, 43859, 1, 42931),
      (43888, 43967, 1, 5024), (65345, 65370, 1, 65313), (66600, 66639, 1, 66560), (66776,
      66811, 1, 66736), (66967, 66977, 1, 66928), (66979, 66993, 1, 66940), (66995, 67001,
      1, 66956), (67003, 67004, 1, 66964), (68800, 68850, 1, 68736), (71872, 71903, 1,
      71840), (93792, 93823, 1, 93760), (125218, 125251, 1, 125184)]"

definition upper_special :: "(uchar \<times> ustring) list" where
  "upper_special =
     [(223, [83, 83]), (329, [700, 78]), (496, [74, 780]), (912, [921, 776, 769]), (944,
      [933, 776, 769]), (1415, [1333, 1362]), (7830, [72, 817]), (7831, [84, 776]), (7832,
      [87, 778]), (7833, [89, 778]), (7834, [65, 702]), (8016, [933, 787]), (8018, [933,
      787, 768]), (8020, [933, 787, 769]), (8022, [933, 787, 834]), (8064, [7944, 921]),
      (8065, [7945, 921]), (8066, [7946, 921]), (8067, [7947, 921]), (8068, [7948, 921]),
      (8069, [7949, 921]), (8070, [7950, 921]), (8071, [7951, 921]), (8072, [7944, 921]),
      (8073, [7945, 921]), (8074, [7946, 921]), (8075, [7947, 921]), (8076, [7948, 921]),
      (8077, [7949, 921]), (8078, [7950, 921]), (8079, [7951, 921]), (8080, [7976, 921]),
      (8081, [7977, 921]), (8082, [7978, 921]), (8083, [7979, 921]), (8084, [7980, 921]),
      (8085, [7981, 921]), (8086, [7982, 921]), (8087, [7983, 921]), (8088, [7976, 921]),
      (8089, [7977, 921]), (8090, [7978, 921]), (8091, [7979, 921]), (8092, [7980, 921]),
      (8093, [7981, 921]), (8094, [7982, 921]), (8095, [7983, 921]), (8096, [8040, 921]),
      (8097, [8041, 921]), (8098, [8042, 921]), (8099, [8043, 921]), (8100, [8044, 921]),
      (8101, [8045, 921]), (8102, [8046, 921]), (8103, [8047, 921]), (8104, [8040, 921]),
      (8105, [8041, 921]), (8106, [8042, 921]), (8107, [8043, 921]), (8108, [8044, 921]),
      (8109, [8045, 921]), (8110, [8046, 921]), (8111, [8047, 921]), (8114, [8122, 921]),
      (8115, [913, 921]), (8116, [902, 921]), (8118, [913, 834]), (8119, [913, 834, 921]),
      (8124, [913, 921]), (8130, [8138, 921]), (8131, [919, 921]), (8132, [905, 921]),
      (8134, [919, 834]), (8135, [919, 834, 921]), (8140, [919, 921]), (8146, [921, 776,
      768]), (8147, [921, 776, 769]), (8150, [921, 834]), (8151, [921, 776, 834]), (8162,
      [933, 776, 768]), (8163, [933, 776, 769]), (8164, [929, 787]), (8166, [933, 834]),
      (8167, [933, 776, 834]), (8178, [8186, 921]), (8179, [937, 921]), (8180, [911, 921]),
      (8182, [937, 834]), (8183, [937, 834, 921]), (8188, [937, 921]), (64256, [70, 70]),
      (64257, [70, 73]), (64258, [70, 76]), (64259, [70, 70, 73]), (64260, [70, 70, 76]),
      (64261, [83, 84]), (64262, [83, 84]), (64275, [1348, 1350]), (64276, [1348, 1333]),
      (64277, [1348, 1339]), (64278, [1358, 1350]), (64279, [1348, 1341])]"

definition upper_char :: "uchar \<Rightarrow> ustring" where
  "upper_char c =
     (if c < 128 then (if 97 \<le> c \<and> c \<le> 122 then [c - 32] else [c])
      else case map_of upper_special c of
             Some e \<Rightarrow> e
           | None \<Rightarrow> (case run_lookup upper_runs c of Some u \<Rightarrow> [u] | None \<Rightarrow> [c]))"

definition py_upper :: "ustring \<Rightarrow> ustring" where
  "py_upper s = concat (map upper_char s)"

definition lower_runs :: "case_run list" where
  "lower_runs =
     [(192, 214, 1, 224), (216, 222, 1, 248), (256, 302, 2, 257), (306, 310, 2, 307), (313,
      327, 2, 314), (330, 374, 2, 331), (376, 376, 1, 255), (377, 381, 2, 378), (385, 385,
      1, 595), (386, 388, 2, 387), (390, 390, 1, 596), (391, 391, 1, 392), (393, 394, 1,
      598), (395, 395, 1, 396), (398, 398, 1, 477), (399, 399, 1, 601), (400, 400, 1, 603),
      (401, 401, 1, 402), (403, 403, 1, 608), (404, 404, 1, 611), (406, 406, 1, 617), (407,
      407, 1, 616), (408, 408, 1, 409), (412, 412, 1, 623), (413, 413, 1, 626), (415, 415,
      1, 629), (416, 420, 2, 417), (422, 422, 1, 640), (423, 423, 1, 424), (425, 425, 1,
      643), (428, 428, 1, 429), (430, 430, 1, 648), (431, 431, 1, 432), (433, 434, 1, 650),
      (435, 437, 2, 436), (439, 439, 1, 658), (440, 440, 1, 441), (444, 444, 1, 445), (452,
      452, 1, 454), (453, 453, 1, 454), (455, 455, 1, 457), (456, 456, 1, 457), (458, 458,
      1, 460), (459, 475, 2, 460), (478, 494, 2, 479), (497, 497, 1, 499), (498, 500, 2,
      499), (502, 502, 1, 405), (503, 503, 1, 447), (504, 542, 2, 505), (544, 544, 1, 414),
      (546, 562, 2, 547), (570, 570, 1, 11365), (571, 571, 1, 572), (573, 573, 1, 410),
      (574, 574, 1, 11366), (577, 577, 1, 578), (579, 579, 1, 384), (580, 580, 1, 649),
      (581, 581, 1, 652), (582, 590, 2, 583), (880, 882, 2, 881), (886, 886, 1, 887), (895,
      895, 1, 1011), (902, 902, 1, 940), (904, 906, 1, 941), (908, 908, 1, 972), (910, 911,
      1, 973), (913, 929, 1, 945), (931, 939, 1, 963), (975, 975, 1, 983), (984, 1006, 2,
      985), (1012, 1012, 1, 952), (1015, 1015, 1, 1016), (1017, 1017, 1, 1010), (1018, 1018,
      1, 1019), (1021, 1023, 1, 891), (1024, 1039, 1, 1104), (1040, 1071, 1, 1072), (1120,
      1152, 2, 1121), (1162, 1214, 2, 1163), (1216, 1216, 1, 1231), (1217, 1229, 2, 1218),
      (1232, 1326, 2, 1233), (1329, 1366, 1, 1377), (4256, 4293, 1, 11520), (4295, 4295, 1,
      11559), (4301, 4301, 1, 11565), (5024, 5103, 1, 43888), (5104, 5109, 1, 5112), (7312,
      7354, 1, 4304), (7357, 7359, 1, 4349), (7680, 7828, 2, 7681), (7838, 7838, 1, 223),
      (7840, 7934, 2, 7841), (7944, 7951, 1, 7936), (7960, 7965, 1, 7952), (7976, 7983, 1,
      7968), (7992, 7999, 1, 7984), (8008, 8013, 1, 8000), (8025, 8031, 2, 8017), (8040,
      8047, 1, 8032), (8072, 8079, 1, 8064), (8088, 8095, 1, 8080), (8104, 8111, 1, 8096),
      (8120, 8121, 1, 8112), (8122, 8123, 1, 8048), (8124, 8124, 1, 8115), (8136, 8139, 1,
      8050), (8140, 8140, 1, 8131), (8152, 8153, 1, 8144), (8154, 8155, 1, 8054), (8168,
      8169, 1, 8160), (8170, 8171, 1, 8058), (8172, 8172, 1, 8165), (8184, 8185, 1, 8056),
      (8186, 8187, 1, 8060), (8188, 8188, 1, 8179), (8486, 8486, 1, 969), (8490, 8490, 1,
      107), (8491, 8491, 1, 229), (8498, 8498, 1, 8526), (8544, 8559, 1, 8560), (8579, 8579,
      1, 8580), (9398, 9423, 1, 9424), (11264, 11311, 1, 11312), (11360, 11360, 1, 11361),
      (11362, 11362, 1, 619), (11363, 11363, 1, 7549), (11364, 11364, 1, 637), (11367,
      11371, 2, 11368), (11373, 11373, 1, 593), (11374, 11374, 1, 625), (11375, 11375, 1,
      592), (11376, 11376, 1, 594), (11378, 11378, 1, 11379), (11381, 11381, 1, 11382),
      (11390, 11391, 1, 575), (11392, 11490, 2, 11393), (11499, 11501, 2, 11500), (11506,
      11506, 1, 11507), (42560, 42604, 2, 42561), (42624, 42650, 2, 42625), (42786, 42798,
      2, 42787), (42802, 42862, 2, 42803), (42873, 42875, 2, 42874), (42877, 42877, 1,
      7545), (42878, 42886, 2, 42879), (42891, 42891, 1, 42892), (42893, 42893, 1, 613),
      (42896, 42898, 2, 42897), (42902, 42920, 2, 42903), (42922, 42922, 1, 614), (42923,
      42923, 1, 604), (42924, 42924, 1, 609), (42925, 42925, 1, 620), (42926, 42926, 1,
      618), (42928, 42928, 1, 670), (42929, 42929, 1, 647), (42930, 42930, 1, 669), (42931,
      42931, 1, 43859), (42932, 42946, 2, 42933), (42948, 42948, 1, 42900), (42949, 42949,
      1, 642), (42950, 42950, 1, 7566), (42951, 42953, 2, 42952), (42960, 42960, 1, 42961),
      (42966, 42968, 2, 42967), (42997, 42997, 1, 42998), (65313, 65338, 1, 65345), (66560,
      66599, 1, 66600), (66736, 66771, 1, 66776), (66928, 66938, 1, 66967), (66940, 66954,
      1, 66979), (66956, 66962, 1, 66995), (66964, 66965, 1, 67003), (68736, 68786, 1,
      68800), (71840, 71871, 1, 71872), (93760, 93791, 1, 93792), (125184, 125217, 1,
      125218)]"

text \<open>The lower case of one character; U+0130 is the only one that gives two.\<close>

definition lower_char :: "uchar \<Rightarrow> ustring" where
  "lower_char c =
     (if c < 128 then (if 65 \<le> c \<and> c \<le> 90 then [c + 32] else [c])
      else if c = 304 then [105, 775]
      else case run_lookup lower_runs c of Some u \<Rightarrow> [u] | None \<Rightarrow> [c])"

text \<open>
  \<open>str.lower\<close> reads the capital sigma (931) in its context: it is written as the final
  sigma (962) when a cased character comes before it, case-ignorable characters apart,
  and no cased character comes after it, case-ignorable characters apart; otherwise as
  the small sigma (963). The test for a cased character is made of characters that are
  not case-ignorable only, and \<open>cased_table\<close> lists those.
\<close>

fun in_intervals :: "(nat \<times> nat) list \<Rightarrow> uchar \<Rightarrow> bool" where
  "in_intervals [] c = False"
| "in_intervals ((lo, hi) # rs) c = ((lo \<le> c \<and> c \<le> hi) \<or> in_intervals rs c)"

definition case_ignorable_table :: "(nat \<times> nat) list" where
  "case_ignorable_table =
     [(168, 168), (173, 173), (175, 175), (180, 180), (183, 184), (688, 879), (884, 885),
      (890, 890), (900, 901), (903, 903), (1155, 1161), (1369, 1369), (1375, 1375), (1425,
      1469), (1471, 1471), (1473, 1474), (1476, 1477), (1479, 1479), (1524, 1524), (1536,
      1541), (1552, 1562), (1564, 1564), (1600, 1600), (1611, 1631), (1648, 1648), (1750,
      1757), (1759, 1768), (1770, 1773), (1807, 1807), (1809, 1809), (1840, 1866), (1958,
      1968), (2027, 2037), (2042, 2042), (2045, 2045), (2070, 2093), (2137, 2139), (2184,
      2184), (2192, 2193), (2200, 2207), (2249, 2306), (2362, 2362), (2364, 2364), (2369,
      2376), (2381, 2381), (2385, 2391), (2402, 2403), (2417, 2417), (2433, 2433), (2492,
      2492), (2497, 2500), (2509, 2509), (2530, 2531), (2558, 2558), (2561, 2562), (2620,
      2620), (2625, 2626), (2631, 2632), (2635, 2637), (2641, 2641), (2672, 2673), (2677,
      2677), (2689, 2690), (2748, 2748), (2753, 2757), (2759, 2760), (2765, 2765), (2786,
      2787), (2810, 2815), (2817, 2817), (2876, 2876), (2879, 2879), (2881, 2884), (2893,
      2893), (2901, 2902), (2914, 2915), (2946, 2946), (3008, 3008), (3021, 3021), (3072,
      3072), (3076, 3076), (3132, 3132), (3134, 3136), (3142, 3144), (3146, 3149), (3157,
      3158), (3170, 3171), (3201, 3201), (3260, 3260), (3263, 3263), (3270, 3270), (3276,
      3277), (3298, 3299), (3328, 3329), (3387, 3388), (3393, 3396), (3405, 3405), (3426,
      3427), (3457, 3457), (3530, 3530), (3538, 3540), (3542, 3542), (3633, 3633), (3636,
      3642), (3654, 3662), (3761, 3761), (3764, 3772), (3782, 3782), (3784, 3789), (3864,
      3865), (3893, 3893), (3895, 3895), (3897, 3897), (3953, 3966), (3968, 3972), (3974,
      3975), (3981, 3991), (3993, 4028), (4038, 4038), (4141, 4144), (4146, 4151), (4153,
      4154), (4157, 4158), (4184, 4185), (4190, 4192), (4209, 4212), (4226, 4226), (4229,
      4230), (4237, 4237), (4253, 4253), (4348, 4348), (4957, 4959), (5906, 5908), (5938,
      5939), (5970, 5971), (6002, 6003), (6068, 6069), (6071, 6077), (6086, 6086), (6089,
      6099), (6103, 6103), (6109, 6109), (6155, 6159), (6211, 6211), (6277, 6278), (6313,
      6313), (6432, 6434), (6439, 6440), (6450, 6450), (6457, 6459), (6679, 6680), (6683,
      6683), (6742, 6742), (6744, 6750), (6752, 6752), (6754, 6754), (6757, 6764), (6771,
      6780), (6783, 6783), (6823, 6823), (6832, 6862), (6912, 6915), (6964, 6964), (6966,
      6970), (6972, 6972), (6978, 6978), (7019, 7027), (7040, 7041), (7074, 7077), (7080,
      7081), (7083, 7085), (7142, 7142), (7144, 7145), (7149, 7149), (7151, 7153), (7212,
      7219), (7222, 7223), (7288, 7293), (7376, 7378), (7380, 7392), (7394, 7400), (7405,
      7405), (7412, 7412), (7416, 7417), (7468, 7530), (7544, 7544), (7579, 7679), (8125,
      8125), (8127, 8129), (8141, 8143), (8157, 8159), (8173, 8175), (8189, 8190), (8203,
      8207), (8216, 8217), (8228, 8228), (8231, 8231), (8234, 8238), (8288, 8292), (8294,
      8303), (8305, 8305), (8319, 8319), (8336, 8348), (8400, 8432), (11388, 11389), (11503,
      11505), (11631, 11631), (11647, 11647), (11744, 11775), (11823, 11823), (12293,
      12293), (12330, 12333), (12337, 12341), (12347, 12347), (12441, 12446), (12540,
      12542), (40981, 40981), (42232, 42237), (42508, 42508), (42607, 42610), (42612,
      42621), (42623, 42623), (42652, 42655), (42736, 42737), (42752, 42785), (42864,
      42864), (42888, 42890), (42994, 42996), (43000, 43001), (43010, 43010), (43014,
      43014), (43019, 43019), (43045, 43046), (43052, 43052), (43204, 43205), (43232,
      43249), (43263, 43263), (43302, 43309), (43335, 43345), (43392, 43394), (43443,
      43443), (43446, 43449), (43452, 43453), (43471, 43471), (43493, 43494), (43561,
      43566), (43569, 43570), (43573, 43574), (43587, 43587), (43596, 43596), (43632,
      43632), (43644, 43644), (43696, 43696), (43698, 43700), (43703, 43704), (43710,
      43711), (43713, 43713), (43741, 43741), (43756, 43757), (43763, 43764), (43766,
      43766), (43867, 43871), (43881, 43883), (44005, 44005), (44008, 44008), (44013,
      44013), (64286, 64286), (64434, 64450), (65024, 65039), (65043, 65043), (65056,
      65071), (65106, 65106), (65109, 65109), (65279, 65279), (65287, 65287), (65294,
      65294), (65306, 65306), (65342, 65342), (65344, 65344), (65392, 65392), (65438,
      65439), (65507, 65507), (65529, 65531), (66045, 66045), (66272, 66272), (66422,
      66426), (67456, 67461), (67463, 67504), (67506, 67514), (68097, 68099), (68101,
      68102), (68108, 68111), (68152, 68154), (68159, 68159), (68325, 68326), (68900,
      68903), (69291, 69292), (69446, 69456), (69506, 69509), (69633, 69633), (69688,
      69702), (69744, 69744), (69747, 69748), (69759, 69761), (69811, 69814), (69817,
      69818), (69821, 69821), (69826, 69826), (69837, 69837), (69888, 69890), (69927,
      69931), (69933, 69940), (70003, 70003), (70016, 70017), (70070, 70078), (70089,
      70092), (70095, 70095), (70191, 70193), (70196, 70196), (70198, 70199), (70206,
      70206), (70367, 70367), (70371, 70378), (70400, 70401), (70459, 70460), (70464,
      70464), (70502, 70508), (70512, 70516), (70712, 70719), (70722, 70724), (70726,
      70726), (70750, 70750), (70835, 70840), (70842, 70842), (70847, 70848), (70850,
      70851), (71090, 71093), (71100, 71101), (71103, 71104), (71132, 71133), (71219,
      71226), (71229, 71229), (71231, 71232), (71339, 71339), (71341, 71341), (71344,
      71349), (71351, 71351), (71453, 71455), (71458, 71461), (71463, 71467), (71727,
      71735), (71737, 71738), (71995, 71996), (71998, 71998), (72003, 72003), (72148,
      72151), (72154, 72155), (72160, 72160), (72193, 72202), (72243, 72248), (72251,
      72254), (72263, 72263), (72273, 72278), (72281, 72283), (72330, 72342), (72344,
      72345), (72752, 72758), (72760, 72765), (72767, 72767), (72850, 72871), (72874,
      72880), (72882, 72883), (72885, 72886), (73009, 73014), (73018, 73018), (73020,
      73021), (73023, 73029), (73031, 73031), (73104, 73105), (73109, 73109), (73111,
      73111), (73459, 73460), (78896, 78904), (92912, 92916), (92976, 92982), (92992,
      92995), (94031, 94031), (94095, 94111), (94176, 94177), (94179, 94180), (110576,
      110579), (110581, 110587), (110589, 110590), (113821, 113822), (113824, 113827),
      (118528, 118573), (118576, 118598), (119143, 119145), (119155, 119170), (119173,
      119179), (119210, 119213), (119362, 119364), (121344, 121398), (121403, 121452),
      (121461, 121461), (121476, 121476), (121499, 121503), (121505, 121519), (122880,
      122886), (122888, 122904), (122907, 122913), (122915, 122916), (122918, 122922),
      (123184, 123197), (123566, 123566), (123628, 123631), (125136, 125142), (125252,
      125259), (127995, 127999), (917505, 917505), (917536, 917631), (917760, 917999)]"

definition cased_table :: "(nat \<times> nat) list" where
  "cased_table =
     [(170, 170), (181, 181), (186, 186), (192, 214), (216, 246), (248, 442), (444, 447),
      (452, 659), (661, 687), (880, 883), (886, 887), (891, 893), (895, 895), (902, 902),
      (904, 906), (908, 908), (910, 929), (931, 1013), (1015, 1153), (1162, 1327), (1329,
      1366), (1376, 1416), (4256, 4293), (4295, 4295), (4301, 4301), (4304, 4346), (4349,
      4351), (5024, 5109), (5112, 5117), (7296, 7304), (7312, 7354), (7357, 7359), (7424,
      7467), (7531, 7543), (7545, 7578), (7680, 7957), (7960, 7965), (7968, 8005), (8008,
      8013), (8016, 8023), (8025, 8025), (8027, 8027), (8029, 8029), (8031, 8061), (8064,
      8116), (8118, 8124), (8126, 8126), (8130, 8132), (8134, 8140), (8144, 8147), (8150,
      8155), (8160, 8172), (8178, 8180), (8182, 8188), (8450, 8450), (8455, 8455), (8458,
      8467), (8469, 8469), (8473, 8477), (8484, 8484), (8486, 8486), (8488, 8488), (8490,
      8493), (8495, 8500), (8505, 8505), (8508, 8511), (8517, 8521), (8526, 8526), (8544,
      8575), (8579, 8580), (9398, 9449), (11264, 11387), (11390, 11492), (11499, 11502),
      (11506, 11507), (11520, 11557), (11559, 11559), (11565, 11565), (42560, 42605),
      (42624, 42651), (42786, 42863), (42865, 42887), (42891, 42894), (42896, 42954),
      (42960, 42961), (42963, 42963), (42965, 42969), (42997, 42998), (43002, 43002),
      (43824, 43866), (43872, 43880), (43888, 43967), (64256, 64262), (64275, 64279),
      (65313, 65338), (65345, 65370), (66560, 66639), (66736, 66771), (66776, 66811),
      (66928, 66938), (66940, 66954), (66956, 66962), (66964, 66965), (66967, 66977),
      (66979, 66993), (66995, 67001), (67003, 67004), (68736, 68786), (68800, 68850),
      (71840, 71903), (93760, 93823), (119808, 119892), (119894, 119964), (119966, 119967),
      (119970, 119970), (119973, 119974), (119977, 119980), (119982, 119993), (119995,
      119995), (119997, 120003), (120005, 120069), (120071, 120074), (120077, 120084),
      (120086, 120092), (120094, 120121), (120123, 120126), (120128, 120132), (120134,
      120134), (120138, 120144), (120146, 120485), (120488, 120512), (120514, 120538),
      (120540, 120570), (120572, 120596), (120598, 120628), (120630, 120654), (120656,
      120686), (120688, 120712), (120714, 120744), (120746, 120770), (120772, 120779),
      (122624, 122633), (122635, 122654), (125184, 125251), (127280, 127305), (127312,
      127337), (127344, 127369)]"

definition case_ignorable :: "uchar \<Rightarrow> bool" where
  "case_ignorable c \<longleftrightarrow>
     (if c < 128 then c = 39 \<or> c = 46 \<or> c = 58 \<or> c = 94 \<or> c = 96
      else in_intervals case_ignorable_table c)"

definition cased :: "uchar \<Rightarrow> bool" where
  "cased c \<longleftrightarrow>
     (if c < 128 then (65 \<le> c \<and> c \<le> 90) \<or> (97 \<le> c \<and> c \<le> 122)
      else in_intervals cased_table c)"

definition final_sigma :: "ustring \<Rightarrow> ustring \<Rightarrow> bool" where
  "final_sigma before after \<longleftrightarrow>
     (case dropWhile case_ignorable before of [] \<Rightarrow> False | b # bs \<Rightarrow> cased b) \<and>
     (case dropWhile case_ignorable after of [] \<Rightarrow> True | a # as \<Rightarrow> \<not> cased a)"

text \<open>\<open>lower_from before s\<close>: the lower case of \<open>s\<close>, which comes after the characters
  \<open>before\<close> (the nearest first).\<close>

fun lower_from :: "ustring \<Rightarrow> ustring \<Rightarrow> ustring" where
  "lower_from before [] = []"
| "lower_from before (c # cs) =
     (if c = 931 then [if final_sigma before cs then 962 else 963] else lower_char c)
     @ lower_from (c # before) cs"

definition py_lower :: "ustring \<Rightarrow> ustring" where
  "py_lower s = lower_from [] s"

text \<open>\<open>str.strip()\<close>: whitespace removed at both ends.\<close>

definition py_strip :: "ustring \<Rightarrow> ustring" where
  "py_strip s = rev (dropWhile py_isspace (rev (dropWhile py_isspace s)))"

text \<open>\<open>s.split(c)\<close> for a one-character separator: always at least one piece.\<close>

fun py_split :: "uchar \<Rightarrow> ustring \<Rightarrow> ustring list" where
  "py_split c [] = [[]]"
| "py_split c (x # xs) =
     (if x = c then [] # py_split c xs
      else (case py_split c xs of p # ps \<Rightarrow> (x # p) # ps | [] \<Rightarrow> [[x]]))"

text \<open>\<open>s.replace(c, new)\<close> for a one-character \<open>c\<close> (every call of the source is one).\<close>

definition py_replace :: "uchar \<Rightarrow> ustring \<Rightarrow> ustring \<Rightarrow> ustring" where
  "py_replace c new s = concat (map (\<lambda>x. if x = c then new else [x]) s)"

text \<open>\<open>t in s\<close> on strings: \<open>t\<close> occurs as a contiguous substring of \<open>s\<close>.\<close>

fun is_prefix :: "ustring \<Rightarrow> ustring \<Rightarrow> bool" where
  "is_prefix [] s = True"
| "is_prefix (x # xs) [] = False"
| "is_prefix (x # xs) (y # ys) = (x = y \<and> is_prefix xs ys)"

fun py_in :: "ustring \<Rightarrow> ustring \<Rightarrow> bool" where
  "py_in t [] = (t = [])"
| "py_in t (c # cs) = (is_prefix t (c # cs) \<or> py_in t cs)"

section \<open>The regular expressions of the source\<close>

text \<open>
  The patterns of the source are concatenations of quantified groups, each group a
  fixed sequence of character classes: \<open>\d{2}\<close>, \<open>-?\<close>, \<open>\d+\<close>, \<open>[\.,]\<close>,
  \<open>\s*\<close>, \<open>(?:\.\d{3})*\<close>. All quantifiers are greedy. \<open>match_here\<close> follows the
  backtracking matcher of \<open>re\<close>: a group is first repeated as often as it can be
  (up to its maximum), and repetitions are given back one at a time while the rest
  of the pattern fails.
\<close>

datatype cclass = Lit uchar | Digit | Space | AnyOf "uchar list"

fun cmatch :: "cclass \<Rightarrow> uchar \<Rightarrow> bool" where
  "cmatch (Lit c) x = (x = c)"
| "cmatch Digit x = py_isdigit x"
| "cmatch Space x = py_isspace x"
| "cmatch (AnyOf cs) x = (x \<in> set cs)"

datatype item = Rep "cclass list" nat "nat option"

type_synonym pattern = "item list"

fun group_match :: "cclass list \<Rightarrow> ustring \<Rightarrow> ustring option" where
  "group_match [] s = Some s"
| "group_match (c # cs) [] = None"
| "group_match (c # cs) (x # xs) = (if cmatch c x then group_match cs xs else None)"

text \<open>The remainders after 0, 1, ..., at most \<open>n\<close> repetitions of the group.\<close>

fun reps :: "nat \<Rightarrow> cclass list \<Rightarrow> ustring \<Rightarrow> ustring list" where
  "reps 0 g s = [s]"
| "reps (Suc n) g s =
     s # (case group_match g s of None \<Rightarrow> [] | Some s' \<Rightarrow> reps n g s')"

fun candidates :: "item \<Rightarrow> ustring \<Rightarrow> ustring list" where
  "candidates (Rep g lo hi) s =
     rev (drop lo (reps (case hi of None \<Rightarrow> length s | Some h \<Rightarrow> h) g s))"

fun first_some :: "('a \<Rightarrow> 'b option) \<Rightarrow> 'a list \<Rightarrow> 'b option" where
  "first_some f [] = None"
| "first_some f (x # xs) = (case f x of Some y \<Rightarrow> Some y | None \<Rightarrow> first_some f xs)"

text \<open>The match of the pattern at the start of the string: the remainder after it.\<close>

primrec match_here :: "pattern \<Rightarrow> ustring \<Rightarrow> ustring option" where
  "match_here [] = Some"
| "match_here (it # its) = (\<lambda>s. first_some (match_here its) (candidates it s))"

text \<open>
  \<open>re.finditer\<close>: the non-overlapping matches from left to right, as the matched
  texts. After an empty match the scan moves on by one character.
\<close>

function finditer :: "pattern \<Rightarrow> ustring \<Rightarrow> ustring list" where
  "finditer p [] = (case match_here p [] of Some r \<Rightarrow> [[]] | None \<Rightarrow> [])"
| "finditer p (c # cs) =
     (case match_here p (c # cs) of
        None \<Rightarrow> finditer p cs
      | Some r \<Rightarrow>
          if length r < length (c # cs)
          then take (length (c # cs) - length r) (c # cs) # finditer p r
          else [] # finditer p cs)"
  by pat_completeness auto
termination
  by (relation "measure (\<lambda>(p, s). length s)") auto

text \<open>\<open>re.sub(p, repl, s)\<close>: every match replaced by \<open>repl\<close>.\<close>

function re_sub :: "pattern \<Rightarrow> ustring \<Rightarrow> ustring \<Rightarrow> ustring" where
  "re_sub p repl [] = (case match_here p [] of Some r \<Rightarrow> repl | None \<Rightarrow> [])"
| "re_sub p repl (c # cs) =
     (case match_here p (c # cs) of
        None \<Rightarrow> c # re_sub p repl cs
      | Some r \<Rightarrow>
          if length r < length (c # cs)
          then repl @ re_sub p repl r
          else repl @ c # re_sub p repl cs)"
  by pat_completeness auto
termination
  by (relation "measure (\<lambda>(p, repl, s). length s)") auto

definition digits :: "nat \<Rightarrow> item" where
  "digits n = Rep [Digit] n (Some n)"

definition lit :: "uchar \<Rightarrow> item" where
  "lit c = Rep [Lit c] 1 (Some 1)"

definition opt :: "uchar \<Rightarrow> item" where
  "opt c = Rep [Lit c] 0 (Some 1)"

text \<open>
  \<open>date_patterns\<close>: \<open>\d{2}/\d{2}/\d{4}\<close>, \<open>\d{2}-\d{2}-\d{4}\<close>, \<open>\d{4}-\d{2}-\d{2}\<close>
  (code points: \<open>/\<close> 47, \<open>-\<close> 45).
\<close>

definition date_slash :: pattern where
  "date_slash = [digits 2, lit 47, digits 2, lit 47, digits 4]"

definition date_dash :: pattern where
  "date_dash = [digits 2, lit 45, digits 2, lit 45, digits 4]"

definition date_iso :: pattern where
  "date_iso = [digits 4, lit 45, digits 2, lit 45, digits 2]"

definition date_patterns :: "pattern list" where
  "date_patterns = [date_slash, date_dash, date_iso]"

text \<open>
  \<open>amount_patterns\<close>: \<open>-?\d+[\.,]\d{2}\<close>, \<open>-?\<euro>\s*\d+[\.,]\d{2}\<close>,
  \<open>-?\d{1,3}(?:\.\d{3})*,\d{2}\<close> (code points: \<open>.\<close> 46, \<open>,\<close> 44, the euro sign 8364).
\<close>

definition amount_plain :: pattern where
  "amount_plain = [opt 45, Rep [Digit] 1 None, Rep [AnyOf [46, 44]] 1 (Some 1), digits 2]"

definition amount_euro :: pattern where
  "amount_euro =
     [opt 45, lit 8364, Rep [Space] 0 None, Rep [Digit] 1 None,
      Rep [AnyOf [46, 44]] 1 (Some 1), digits 2]"

definition amount_thousands :: pattern where
  "amount_thousands =
     [opt 45, Rep [Digit] 1 (Some 3), Rep [Lit 46, Digit, Digit, Digit] 0 None,
      lit 44, digits 2]"

definition amount_patterns :: "pattern list" where
  "amount_patterns = [amount_plain, amount_euro, amount_thousands]"

definition whitespace_run :: pattern where
  "whitespace_run = [Rep [Space] 1 None]"

section \<open>Amounts and dates\<close>

text \<open>
  The value of the variable \<open>amount\<close>: a number, the cleaned text that \<open>float\<close>
  refused (the \<open>except ValueError: continue\<close> branch leaves it in the variable), or the
  missing-value marker of pandas. Floating-point numbers are represented by the exact
  decimal value of the text they were read from; rounding does not change the sign
  tests of the source.
\<close>

datatype amount = Num rat | Str ustring | NaN

datatype txn_type = DEBIT | CREDIT | UNKNOWN

datatype error =
    NotFound
  | UnsupportedFormat
  | ExtractionFailure
  | LoadFailure
  | UnrecodableFile
  | MissingColumns
  | NoDirectorySpecified
  | TypeError
  | KeyError
  | AttributeError
  | ValueError
  | InvalidIndexError

text \<open>\<open>amount \<le> 0\<close> and \<open>amount \<ge> 0\<close> as the invariant of the data model reads them:
  they hold of numbers only.\<close>

fun nonpositive :: "amount \<Rightarrow> bool" where
  "nonpositive (Num r) = (r \<le> 0)"
| "nonpositive _ = False"

fun nonnegative :: "amount \<Rightarrow> bool" where
  "nonnegative (Num r) = (0 \<le> r)"
| "nonnegative _ = False"

fun digits_value :: "nat \<Rightarrow> ustring \<Rightarrow> nat" where
  "digits_value acc [] = acc"
| "digits_value acc (c # cs) = digits_value (10 * acc + digit_of c) cs"

text \<open>
  \<open>float(s)\<close> on decimal notation: whitespace at both ends is dropped (the four
  separators 28 to 31 are whitespace for \<open>str.isspace\<close> but are not dropped), then
  an optional sign, digits of any script, an optional point and digits; \<open>None\<close> is
  \<open>ValueError\<close>. (Exponents, \<open>inf\<close>, \<open>nan\<close> and underscores, which \<open>float\<close> also
  reads, are answered with \<open>None\<close>; no cleaned match of an amount pattern holds
  them.)
\<close>

definition unsigned_value :: "ustring \<Rightarrow> rat option" where
  "unsigned_value s =
     (let ip = takeWhile py_isdigit s; rest = dropWhile py_isdigit s in
      case rest of
        [] \<Rightarrow> if ip = [] then None else Some (of_nat (digits_value 0 ip))
      | c # fp \<Rightarrow>
          if c = 46 \<and> list_all py_isdigit fp \<and> (ip \<noteq> [] \<or> fp \<noteq> [])
          then Some (of_nat (digits_value 0 (ip @ fp)) / 10 ^ length fp)
          else None)"

fun signed_value :: "ustring \<Rightarrow> rat option" where
  "signed_value [] = None"
| "signed_value (c # cs) =
     (if c = 45 then map_option uminus (unsigned_value cs)
      else if c = 43 then unsigned_value cs
      else unsigned_value (c # cs))"

definition float_space :: "uchar \<Rightarrow> bool" where
  "float_space c \<longleftrightarrow> py_isspace c \<and> \<not> (28 \<le> c \<and> c \<le> 31)"

definition py_float :: "ustring \<Rightarrow> rat option" where
  "py_float s =
     signed_value (rev (dropWhile float_space (rev (dropWhile float_space s))))"

text \<open>
  A pandas timestamp is a count of nanoseconds since 1970-01-01, held in 64 bits;
  \<open>None\<close> is the unparsed marker \<open>NaT\<close>. A date with a time zone is its instant; whether
  the dates of a table have a time zone is kept with the table.
\<close>

type_synonym timestamp = int

definition is_leap :: "nat \<Rightarrow> bool" where
  "is_leap y \<longleftrightarrow> (y mod 4 = 0 \<and> y mod 100 \<noteq> 0) \<or> y mod 400 = 0"

definition days_in_month :: "nat \<Rightarrow> nat \<Rightarrow> nat" where
  "days_in_month y m =
     (if m = 2 then (if is_leap y then 29 else 28)
      else if m = 4 \<or> m = 6 \<or> m = 9 \<or> m = 11 then 30 else 31)"

definition days_from_civil :: "nat \<Rightarrow> nat \<Rightarrow> nat \<Rightarrow> int" where
  "days_from_civil y m d =
     (let y' = (if m \<le> 2 then int y - 1 else int y);
          era = y' div 400;
          yoe = y' - era * 400;
          mp = (if m > 2 then int m - 3 else int m + 9);
          doy = (153 * mp + 2) div 5 + int d - 1;
          doe = yoe * 365 + yoe div 4 - yoe div 100 + doy
      in era * 146097 + doe - 719468)"

definition make_timestamp :: "nat \<Rightarrow> nat \<Rightarrow> nat \<Rightarrow> timestamp option" where
  "make_timestamp y m d =
     (if 1 \<le> y \<and> 1 \<le> m \<and> m \<le> 12 \<and> 1 \<le> d \<and> d \<le> days_in_month y m
      then (let ns = days_from_civil y m d * 86400000000000 in
            if - 9223372036854775807 \<le> ns \<and> ns \<le> 9223372036854775807
            then Some ns else None)
      else None)"

text \<open>
  The directives of the format \<open>%d/%m/%Y\<close>, as \<open>strptime\<close> reads them: \<open>%d\<close> is
  \<open>3[0-1]|[1-2]\d|0[1-9]|[1-9]| [1-9]\<close>, \<open>%m\<close> is \<open>1[0-2]|0[1-9]|[1-9]\<close>, \<open>%Y\<close> is
  \<open>\d\d\d\d\<close>, where \<open>\d\<close> is a digit of any script and the other digits are ASCII;
  each returns the number read and the rest of the text.
\<close>

fun read_day :: "ustring \<Rightarrow> (nat \<times> ustring) option" where
  "read_day (a # b # r) =
     (if (a = 51 \<and> (b = 48 \<or> b = 49)) \<or> ((a = 49 \<or> a = 50) \<and> py_isdigit b)
          \<or> (a = 48 \<and> 49 \<le> b \<and> b \<le> 57)
      then Some (10 * (a - 48) + digit_of b, r)
      else if 49 \<le> a \<and> a \<le> 57 then Some (a - 48, b # r)
      else if a = 32 \<and> 49 \<le> b \<and> b \<le> 57 then Some (b - 48, r)
      else None)"
| "read_day [a] = (if 49 \<le> a \<and> a \<le> 57 then Some (a - 48, []) else None)"
| "read_day [] = None"

fun read_month :: "ustring \<Rightarrow> (nat \<times> ustring) option" where
  "read_month (a # b # r) =
     (if (a = 49 \<and> 48 \<le> b \<and> b \<le> 50) \<or> (a = 48 \<and> 49 \<le> b \<and> b \<le> 57)
      then Some (10 * (a - 48) + (b - 48), r)
      else if 49 \<le> a \<and> a \<le> 57 then Some (a - 48, b # r)
      else None)"
| "read_month [a] = (if 49 \<le> a \<and> a \<le> 57 then Some (a - 48, []) else None)"
| "read_month [] = None"

fun read_year :: "ustring \<Rightarrow> (nat \<times> ustring) option" where
  "read_year (a # b # c # d # r) =
     (if py_isdigit a \<and> py_isdigit b \<and> py_isdigit c \<and> py_isdigit d
      then Some (digits_value 0 [a, b, c, d], r) else None)"
| "read_year _ = None"

fun expect :: "uchar \<Rightarrow> ustring \<Rightarrow> ustring option" where
  "expect c [] = None"
| "expect c (x # xs) = (if x = c then Some xs else None)"

text \<open>
  \<open>pd.to_datetime(s, format='%d/%m/%Y', errors='coerce')\<close> on one entry: the whole
  text has to conform, and a text that does not becomes \<open>NaT\<close>.
\<close>

definition to_datetime_dmy :: "ustring \<Rightarrow> timestamp option" where
  "to_datetime_dmy s =
     (case read_day s of None \<Rightarrow> None
      | Some (d, s1) \<Rightarrow>
     (case expect 47 s1 of None \<Rightarrow> None
      | Some s2 \<Rightarrow>
     (case read_month s2 of None \<Rightarrow> None
      | Some (m, s3) \<Rightarrow>
     (case expect 47 s3 of None \<Rightarrow> None
      | Some s4 \<Rightarrow>
     (case read_year s4 of None \<Rightarrow> None
      | Some (y, s5) \<Rightarrow> if s5 = [] then make_timestamp y m d else None)))))"

section \<open>Transaction records and tables\<close>

record 'd transaction =
  date :: 'd
  description :: ustring
  amount :: amount
  txn_type :: txn_type

text \<open>
  \<open>sort_values('date')\<close>: ascending, \<open>NaT\<close> last. (pandas does not promise an order
  among rows of equal date; the insertion sort here keeps their order.)
\<close>

fun date_le :: "timestamp option \<Rightarrow> timestamp option \<Rightarrow> bool" where
  "date_le (Some a) (Some b) = (a \<le> b)"
| "date_le _ None = True"
| "date_le None (Some b) = False"

fun insert_row ::
  "(timestamp option, 'z) transaction_scheme \<Rightarrow> (timestamp option, 'z) transaction_scheme list
     \<Rightarrow> (timestamp option, 'z) transaction_scheme list" where
  "insert_row r [] = [r]"
| "insert_row r (x # xs) =
     (if date_le (date r) (date x) then r # x # xs else x # insert_row r xs)"

definition sort_values ::
  "(timestamp option, 'z) transaction_scheme list \<Rightarrow> (timestamp option, 'z) transaction_scheme list" where
  "sort_values rows = foldr insert_row rows []"

text \<open>
  A table as the aggregator reads it: its records row by row, the number of its
  columns that are labelled \<open>description\<close>, and whether its dates carry a time zone.
  The columns of a table are \<open>date\<close>, \<open>description\<close> (once or several times),
  \<open>amount\<close>, \<open>type\<close>, and \<open>source_file\<close> once the aggregator has added it.
\<close>

record 'r frame =
  records :: "'r list"
  description_columns :: nat
  tz_aware :: bool

section \<open>The text parser: \<open>_parse_text_content\<close>\<close>

text \<open>
  The two loops over \<open>date_patterns\<close>: the first match of the first pattern that
  matches anywhere in the line.
\<close>

fun find_date :: "pattern list \<Rightarrow> ustring \<Rightarrow> ustring option" where
  "find_date [] line = None"
| "find_date (p # ps) line =
     (case finditer p line of m # ms \<Rightarrow> Some m | [] \<Rightarrow> find_date ps line)"

text \<open>
  The clean-up of a matched amount: the euro sign and blanks removed, then the points
  removed, then the comma turned into a point.
\<close>

definition clean_amount :: "ustring \<Rightarrow> ustring" where
  "clean_amount m =
     py_replace 44 [46] (py_replace 46 [] (py_replace 32 [] (py_replace 8364 [] m)))"

text \<open>
  The loop over the matches of one amount pattern. The variable \<open>amount\<close> goes in and
  comes out: a match that \<open>float\<close> accepts ends the loop with the number, a match
  that it refuses leaves the cleaned text in the variable and the loop goes on.
\<close>

fun try_matches :: "ustring list \<Rightarrow> amount option \<Rightarrow> amount option" where
  "try_matches [] a = a"
| "try_matches (m # ms) a =
     (case py_float (clean_amount m) of
        Some r \<Rightarrow> Some (Num r)
      | None \<Rightarrow> try_matches ms (Some (Str (clean_amount m))))"

text \<open>The loop over \<open>amount_patterns\<close>, left as soon as \<open>amount\<close> is not \<open>None\<close>.\<close>

fun try_patterns :: "pattern list \<Rightarrow> ustring \<Rightarrow> amount option \<Rightarrow> amount option" where
  "try_patterns [] line a = a"
| "try_patterns (p # ps) line a =
     (case try_matches (finditer p line) a of
        Some v \<Rightarrow> Some v
      | None \<Rightarrow> try_patterns ps line None)"

definition extract_amount :: "ustring \<Rightarrow> amount option" where
  "extract_amount line = try_patterns amount_patterns line None"

text \<open>The description: every match of every date and amount pattern removed, runs of
  whitespace collapsed to one blank, the ends stripped.\<close>

definition extract_description :: "ustring \<Rightarrow> ustring" where
  "extract_description line =
     py_strip (re_sub whitespace_run [32]
       (foldl (\<lambda>d p. re_sub p [] d) line (date_patterns @ amount_patterns)))"

text \<open>The keyword lists (code points: E acute 201, O acute 211, E circumflex 202).\<close>

definition debit_indicators :: "ustring list" where
  "debit_indicators =
     [ascii ''DB'', ascii ''D'' @ [201] @ ascii ''BITO'', ascii ''DEBITO'',
      ascii ''PAGAMENTO'', ascii ''COMPRA'', ascii ''LEVANTAMENTO'']"

definition credit_indicators :: "ustring list" where
  "credit_indicators =
     [ascii ''CR'', ascii ''CR'' @ [201] @ ascii ''DITO'', ascii ''CREDITO'',
      ascii ''DEP'' @ [211] @ ascii ''SITO'', ascii ''DEPOSITO'',
      ascii ''TRANSFER'' @ [202] @ ascii ''NCIA RECEBIDA'']"

definition has_indicator :: "ustring list \<Rightarrow> ustring \<Rightarrow> bool" where
  "has_indicator indicators desc = list_ex (\<lambda>i. py_in i (py_upper desc)) indicators"

text \<open>
  The classification. Comparing a text with \<open>0\<close> raises \<open>TypeError\<close>, so the sign
  tests of the two keyword branches fail on an amount that is a text; a comparison
  with the missing marker is false and leaves it as it is.
\<close>

fun force_debit :: "amount \<Rightarrow> error + amount" where
  "force_debit (Num r) = Inr (Num (if r > 0 then - r else r))"
| "force_debit NaN = Inr NaN"
| "force_debit (Str s) = Inl TypeError"

fun force_credit :: "amount \<Rightarrow> error + amount" where
  "force_credit (Num r) = Inr (Num (if r < 0 then \<bar>r\<bar> else r))"
| "force_credit NaN = Inr NaN"
| "force_credit (Str s) = Inl TypeError"

definition classify :: "ustring \<Rightarrow> amount \<Rightarrow> error + (amount \<times> txn_type)" where
  "classify desc a =
     (if has_indicator debit_indicators desc
      then (case force_debit a of Inl e \<Rightarrow> Inl e | Inr a' \<Rightarrow> Inr (a', DEBIT))
      else if has_indicator credit_indicators desc
      then (case force_credit a of Inl e \<Rightarrow> Inl e | Inr a' \<Rightarrow> Inr (a', CREDIT))
      else Inr (a, UNKNOWN))"

text \<open>The state of the loop over the lines.\<close>

record parser_state =
  current_date :: "ustring option"
  transactions :: "ustring transaction list"

definition initial_state :: parser_state where
  "initial_state = \<lparr>current_date = None, transactions = []\<rparr>"

text \<open>One turn of the loop over the lines.\<close>

definition parse_line :: "parser_state \<Rightarrow> ustring \<Rightarrow> error + parser_state" where
  "parse_line st line =
     (if py_strip line = [] then Inr st
      else
        let found = find_date date_patterns line;
            st1 = (case found of Some d \<Rightarrow> st\<lparr>current_date := Some d\<rparr> | None \<Rightarrow> st);
            date_match = (case found of Some d \<Rightarrow> Some d | None \<Rightarrow> current_date st1)
        in case date_match of
             None \<Rightarrow> Inr st1
           | Some d \<Rightarrow>
               (case extract_amount line of
                  None \<Rightarrow> Inr st1
                | Some a \<Rightarrow>
                    let desc = extract_description line in
                    (case classify desc a of
                       Inl e \<Rightarrow> Inl e
                     | Inr (a', ty) \<Rightarrow>
                         Inr (st1\<lparr>transactions := transactions st1 @
                               [\<lparr>date = d, description = desc, amount = a',
                                 txn_type = ty\<rparr>]\<rparr>))))"

fun parse_lines :: "parser_state \<Rightarrow> ustring list \<Rightarrow> error + parser_state" where
  "parse_lines st [] = Inr st"
| "parse_lines st (l # ls) =
     (case parse_line st l of Inl e \<Rightarrow> Inl e | Inr st' \<Rightarrow> parse_lines st' ls)"

text \<open>The conversion of the date column and the sort, skipped on an empty table.\<close>

definition convert_date :: "ustring transaction \<Rightarrow> timestamp option transaction" where
  "convert_date r =
     \<lparr>date = to_datetime_dmy (date r), description = description r,
      amount = amount r, txn_type = txn_type r\<rparr>"

definition finish_table :: "ustring transaction list \<Rightarrow> timestamp option transaction list" where
  "finish_table rows = (if rows = [] then [] else sort_values (map convert_date rows))"

definition parse_text_content :: "ustring \<Rightarrow> error + timestamp option transaction list" where
  "parse_text_content text =
     (case parse_lines initial_state (py_split 10 text) of
        Inl e \<Rightarrow> Inl e
      | Inr st \<Rightarrow> Inr (finish_table (transactions st)))"

section \<open>The tabular standardizer: \<open>_standardize_dataframe\<close>\<close>

text \<open>
  A raw table is its columns from left to right, each a label and its cells; a cell is
  the text it holds. The two pandas conversions whose rules are not part of this
  program are fields of the record of collaborators below: \<open>to_datetime\<close> is the
  permissive date parser, applied to a cell (for a date with a time zone it gives the
  instant), \<open>with_time_zone\<close> tells of the entries of a date column whether the
  parser gives them a time zone, and \<open>to_numeric\<close> is the numeric coercion,
  \<open>None\<close> being the missing-amount marker.
\<close>

type_synonym raw_table = "(ustring \<times> ustring list) list"

type_synonym path = ustring

datatype encoding = UTF_8 | ISO_8859_1 | CP1252

datatype csv_result = DecodeError | ReadError | Loaded raw_table

record world =
  path_exists :: "path \<Rightarrow> bool"
  glob :: "path \<Rightarrow> path list"
  text_layer :: "path \<Rightarrow> ustring list option"
  ocr :: "path \<Rightarrow> ustring list option"
  read_csv :: "path \<Rightarrow> encoding \<Rightarrow> csv_result"
  read_excel :: "path \<Rightarrow> raw_table option"
  to_datetime :: "ustring \<Rightarrow> timestamp option"
  with_time_zone :: "ustring list \<Rightarrow> bool"
  to_numeric :: "ustring \<Rightarrow> rat option"

definition date_terms :: "ustring list" where
  "date_terms = [ascii ''date'', ascii ''data'', ascii ''dia'']"

definition amount_terms :: "ustring list" where
  "amount_terms = [ascii ''amount'', ascii ''valor'', ascii ''montante'', ascii ''quantia'']"

definition desc_terms :: "ustring list" where
  "desc_terms = [ascii ''desc'', ascii ''texto'', ascii ''detalhe'']"

text \<open>\<open>any(term in col.lower() for term in terms)\<close>\<close>

definition matches_terms :: "ustring list \<Rightarrow> ustring \<Rightarrow> bool" where
  "matches_terms terms col = list_ex (\<lambda>t. py_in t (py_lower col)) terms"

definition columns_for :: "ustring list \<Rightarrow> raw_table \<Rightarrow> ustring list" where
  "columns_for terms df = filter (matches_terms terms) (map fst df)"

text \<open>
  \<open>df.rename(columns={d: 'date', a: 'amount', s: 'description'})\<close>: in the dictionary
  a later entry replaces an earlier one with the same key.
\<close>

definition rename_label :: "ustring \<Rightarrow> ustring \<Rightarrow> ustring \<Rightarrow> ustring \<Rightarrow> ustring" where
  "rename_label d a s n =
     (if n = s then ascii ''description''
      else if n = a then ascii ''amount''
      else if n = d then ascii ''date''
      else n)"

definition rename_columns :: "ustring \<Rightarrow> ustring \<Rightarrow> ustring \<Rightarrow> raw_table \<Rightarrow> raw_table" where
  "rename_columns d a s df = map (\<lambda>(n, cells). (rename_label d a s n, cells)) df"

text \<open>\<open>df[label]\<close>: the columns that carry the label.\<close>

definition getitem :: "ustring \<Rightarrow> raw_table \<Rightarrow> ustring list list" where
  "getitem label df = map snd (filter (\<lambda>(n, cells). n = label) df)"

definition amount_of_cell :: "world \<Rightarrow> ustring \<Rightarrow> amount" where
  "amount_of_cell W cell =
     (case to_numeric W (py_replace 44 [46] cell) of Some r \<Rightarrow> Num r | None \<Rightarrow> NaN)"

text \<open>\<open>'CREDIT' if x > 0 else 'DEBIT'\<close>; a comparison with the missing marker is false.\<close>

fun type_of_amount :: "amount \<Rightarrow> txn_type" where
  "type_of_amount (Num r) = (if r > 0 then CREDIT else DEBIT)"
| "type_of_amount _ = DEBIT"

definition make_row :: "world \<Rightarrow> ustring \<times> ustring \<times> ustring \<Rightarrow> timestamp option transaction" where
  "make_row W = (\<lambda>(d, s, a).
     \<lparr>date = to_datetime W d, description = s, amount = amount_of_cell W a,
      txn_type = type_of_amount (amount_of_cell W a)\<rparr>)"

text \<open>
  The columns that the rest of the standardizer reads, after the renaming, as rows
  (date entry, description, amount entry). \<open>df['date']\<close> and \<open>df['amount']\<close> have to
  be single columns: no column is \<open>KeyError\<close>, two columns are a frame, on which
  \<open>pd.to_datetime\<close> raises \<open>ValueError\<close> and \<open>.str\<close> raises \<open>AttributeError\<close>.
  The final projection raises \<open>KeyError\<close> without a description column; where
  several columns carry that label it returns them all: a record holds the entry of
  the first, and the number of these columns is kept with the table
  (\<open>standardized_frame\<close> below), since the merge of the aggregator depends on it.
\<close>

definition canonical_rows :: "raw_table \<Rightarrow> error + (ustring \<times> ustring \<times> ustring) list" where
  "canonical_rows df1 =
     (case getitem (ascii ''date'') df1 of
        [] \<Rightarrow> Inl KeyError
      | [dates] \<Rightarrow>
          (case getitem (ascii ''amount'') df1 of
             [] \<Rightarrow> Inl KeyError
           | [amounts] \<Rightarrow>
               (case getitem (ascii ''description'') df1 of
                  [] \<Rightarrow> Inl KeyError
                | descs # others \<Rightarrow> Inr (zip dates (zip descs amounts)))
           | _ \<Rightarrow> Inl AttributeError)
      | _ \<Rightarrow> Inl ValueError)"

text \<open>
  The standardizer: the columns of the three fields are looked for, the first of each
  is renamed, the dates and the amounts are converted row by row, the type is derived
  from the amount, and the table is sorted by date.
\<close>

definition standardize_dataframe ::
  "world \<Rightarrow> raw_table \<Rightarrow> error + timestamp option transaction list" where
  "standardize_dataframe W df =
     (case (columns_for date_terms df, columns_for amount_terms df, columns_for desc_terms df) of
        (d # ds, a # as, s # ss) \<Rightarrow>
          (case canonical_rows (rename_columns d a s df) of
             Inl e \<Rightarrow> Inl e
           | Inr rows \<Rightarrow> Inr (sort_values (map (make_row W) rows)))
      | _ \<Rightarrow> Inl MissingColumns)"

text \<open>
  The table that \<open>_standardize_dataframe\<close> returns: the records above, with the
  number of the columns labelled \<open>description\<close> after the renaming and with the
  answer of the date parser on the time zone of the date column.
\<close>

definition selected :: "raw_table \<Rightarrow> raw_table" where
  "selected df =
     (case (columns_for date_terms df, columns_for amount_terms df, columns_for desc_terms df) of
        (d # ds, a # as, s # ss) \<Rightarrow> rename_columns d a s df
      | _ \<Rightarrow> df)"

definition standardized_frame ::
  "world \<Rightarrow> raw_table \<Rightarrow> error + timestamp option transaction frame" where
  "standardized_frame W df =
     (case standardize_dataframe W df of
        Inl e \<Rightarrow> Inl e
      | Inr t \<Rightarrow>
          Inr \<lparr>records = t,
               description_columns = length (getitem (ascii ''description'') (selected df)),
               tz_aware = with_time_zone W (concat (getitem (ascii ''date'') (selected df)))\<rparr>)"

text \<open>The table that \<open>_parse_text_content\<close> returns: one description column, and dates
  without a time zone, since the format \<open>\<lambda>d/\<lambda>m/\<lambda>Y\<close> has none.\<close>

definition text_frame ::
  "timestamp option transaction list \<Rightarrow> timestamp option transaction frame" where
  "text_frame t = \<lparr>records = t, description_columns = 1, tz_aware = False\<rparr>"

section \<open>The format dispatcher: \<open>process_statement\<close>\<close>

definition py_join :: "ustring \<Rightarrow> ustring list \<Rightarrow> ustring" where
  "py_join sep xs = (case xs of [] \<Rightarrow> [] | y # ys \<Rightarrow> y @ concat (map (\<lambda>z. sep @ z) ys))"

text \<open>\<open>Path.name\<close>, the final component, and \<open>Path.suffix\<close>, from its last point on
  (none when the point is first or last in the name).\<close>

definition py_name :: "path \<Rightarrow> ustring" where
  "py_name p = rev (takeWhile (\<lambda>c. c \<noteq> 47) (rev p))"

definition suffix_of :: "path \<Rightarrow> ustring" where
  "suffix_of p =
     (let n = py_name p; ext = rev (takeWhile (\<lambda>c. c \<noteq> 46) (rev n)) in
      if ext = [] \<or> length n \<le> Suc (length ext) then [] else 46 # ext)"

definition supported_extensions :: "ustring list" where
  "supported_extensions = [ascii ''.pdf'', ascii ''.csv'', ascii ''.xlsx'', ascii ''.xls'']"

text \<open>
  \<open>_process_pdf\<close>: the text layer first; whatever is raised there, also by the parser,
  is swallowed and the OCR is tried, whose failure is raised again.
\<close>

definition process_pdf ::
  "world \<Rightarrow> path \<Rightarrow> error + timestamp option transaction frame" where
  "process_pdf W p =
     (let first_try =
            (case text_layer W p of
               None \<Rightarrow> None
             | Some pages \<Rightarrow>
                 let all_text = filter (\<lambda>t. t \<noteq> []) pages in
                 if all_text \<noteq> []
                 then (case parse_text_content (py_join [10] all_text) of
                         Inl e \<Rightarrow> None | Inr t \<Rightarrow> Some t)
                 else None)
      in case first_try of
           Some t \<Rightarrow> Inr (text_frame t)
         | None \<Rightarrow>
             (case ocr W p of
                None \<Rightarrow> Inl ExtractionFailure
              | Some texts \<Rightarrow> map_sum id text_frame (parse_text_content (py_join [10] texts))))"

text \<open>
  \<open>_process_csv\<close>: the loop over the encodings. A decoding error and any other
  exception, the standardizer's included, both lead to the next encoding.
\<close>

fun csv_attempts ::
  "world \<Rightarrow> path \<Rightarrow> encoding list \<Rightarrow> error + timestamp option transaction frame" where
  "csv_attempts W p [] = Inl UnrecodableFile"
| "csv_attempts W p (e # es) =
     (case read_csv W p e of
        DecodeError \<Rightarrow> csv_attempts W p es
      | ReadError \<Rightarrow> csv_attempts W p es
      | Loaded df \<Rightarrow>
          (case standardized_frame W df of
             Inr t \<Rightarrow> Inr t
           | Inl err \<Rightarrow> csv_attempts W p es))"

definition process_csv ::
  "world \<Rightarrow> path \<Rightarrow> error + timestamp option transaction frame" where
  "process_csv W p = csv_attempts W p [UTF_8, ISO_8859_1, CP1252]"

text \<open>\<open>_process_excel\<close>: whatever is raised, by the load or by the standardizer, is
  raised again.\<close>

definition process_excel ::
  "world \<Rightarrow> path \<Rightarrow> error + timestamp option transaction frame" where
  "process_excel W p =
     (case read_excel W p of
        None \<Rightarrow> Inl LoadFailure
      | Some df \<Rightarrow> standardized_frame W df)"

text \<open>\<open>process_statement\<close>; the result \<open>None\<close> is the end of the \<open>if\<close> chain.\<close>

definition process_statement ::
  "world \<Rightarrow> path \<Rightarrow> error + timestamp option transaction frame option" where
  "process_statement W p =
     (if \<not> path_exists W p then Inl NotFound
      else
        let extension = py_lower (suffix_of p) in
        if extension \<notin> set supported_extensions then Inl UnsupportedFormat
        else if extension = ascii ''.pdf'' then map_sum id Some (process_pdf W p)
        else if extension = ascii ''.csv'' then map_sum id Some (process_csv W p)
        else if extension \<in> {ascii ''.xlsx'', ascii ''.xls''}
        then map_sum id Some (process_excel W p)
        else Inr None)"

section \<open>The directory aggregator: \<open>process_directory\<close>\<close>

record 'd sourced = "'d transaction" +
  source_file :: ustring

record processor =
  input_dir :: "path option"

text \<open>\<open>Path(x) if x else None\<close>: \<open>None\<close> and the empty text are both false.\<close>

fun truthy_path :: "ustring option \<Rightarrow> path option" where
  "truthy_path None = None"
| "truthy_path (Some d) = (if d = [] then None else Some d)"

definition new_processor :: "ustring option \<Rightarrow> processor" where
  "new_processor dir = \<lparr>input_dir = truthy_path dir\<rparr>"

definition add_source :: "ustring \<Rightarrow> timestamp option transaction \<Rightarrow> timestamp option sourced" where
  "add_source n r =
     \<lparr>date = date r, description = description r, amount = amount r,
      txn_type = txn_type r, source_file = n\<rparr>"

text \<open>\<open>df['source_file'] = file_path.name\<close>\<close>

definition with_source ::
  "ustring \<Rightarrow> timestamp option transaction frame \<Rightarrow> timestamp option sourced frame" where
  "with_source n df =
     \<lparr>records = map (add_source n) (records df), description_columns = description_columns df,
      tz_aware = tz_aware df\<rparr>"

text \<open>The loop over the entries of the directory, with the list \<open>all_transactions\<close>.
  A table without rows is \<open>df.empty\<close>.\<close>

fun collect ::
  "world \<Rightarrow> path list \<Rightarrow> timestamp option sourced frame list
     \<Rightarrow> timestamp option sourced frame list" where
  "collect W [] acc = acc"
| "collect W (f # fs) acc =
     (if py_lower (suffix_of f) \<in> set supported_extensions
      then (case process_statement W f of
              Inr (Some df) \<Rightarrow>
                if records df \<noteq> [] then collect W fs (acc @ [with_source (py_name f) df])
                else collect W fs acc
            | Inr None \<Rightarrow> collect W fs acc
            | Inl e \<Rightarrow> collect W fs acc)
      else collect W fs acc)"

text \<open>
  \<open>pd.concat(all_transactions, ignore_index=True)\<close> takes the columns of the merged
  table from the tables. When these all have the same columns, the merged table has
  them. When they do not, a table with two columns of one label cannot be brought
  to the common columns, and \<open>pd.concat\<close> raises \<open>InvalidIndexError\<close>; tables
  with different columns differ in the number of their description columns, so one of
  them has two.
\<close>

fun same_columns :: "'r frame list \<Rightarrow> bool" where
  "same_columns [] = True"
| "same_columns (f # fs) = list_all (\<lambda>g. description_columns g = description_columns f) fs"

text \<open>
  \<open>result.sort_values('date')\<close> compares the dates of the merged table, the unparsed
  ones apart. The dates of a table with a time zone and those of a table without one do
  not compare: the sort raises \<open>TypeError\<close>.
\<close>

definition has_dates :: "(timestamp option, 'z) transaction_scheme frame \<Rightarrow> bool" where
  "has_dates f = list_ex (\<lambda>r. date r \<noteq> None) (records f)"

definition mixed_time_zones :: "(timestamp option, 'z) transaction_scheme frame list \<Rightarrow> bool" where
  "mixed_time_zones fs \<longleftrightarrow>
     list_ex (\<lambda>f. tz_aware f \<and> has_dates f) fs \<and> list_ex (\<lambda>f. \<not> tz_aware f \<and> has_dates f) fs"

text \<open>\<open>process_directory\<close>. The merge and the sort come after the loop, outside its
  \<open>try\<close>.\<close>

definition process_directory ::
  "world \<Rightarrow> processor \<Rightarrow> ustring option \<Rightarrow> error + timestamp option sourced list" where
  "process_directory W self directory =
     (case (case truthy_path directory of Some d \<Rightarrow> Some d | None \<Rightarrow> input_dir self) of
        None \<Rightarrow> Inl NoDirectorySpecified
      | Some d \<Rightarrow>
          let all_transactions = collect W (glob W d) [] in
          if all_transactions = [] then Inr []
          else if \<not> same_columns all_transactions then Inl InvalidIndexError
          else if mixed_time_zones all_transactions then Inl TypeError
          else Inr (sort_values (concat (map records all_transactions))))"

section \<open>The properties\<close>

text \<open>The sign invariant of a record.\<close>

definition sign_ok :: "('d, 'z) transaction_scheme \<Rightarrow> bool" where
  "sign_ok r \<longleftrightarrow>
     (txn_type r = DEBIT \<longrightarrow> nonpositive (amount r)) \<and>
     (txn_type r = CREDIT \<longrightarrow> nonnegative (amount r))"

text \<open>A table in ascending order of date, the rows without a date last.\<close>

definition date_sorted :: "(timestamp option, 'z) transaction_scheme list \<Rightarrow> bool" where
  "date_sorted rows = sorted_wrt (\<lambda>a b. date_le (date a) (date b)) rows"

section \<open>Example directories\<close>

text \<open>
  A directory \<open>in\<close> with four entries: a delimited file whose table has no description
  column, a text file, a delimited file that is not UTF-8 and decodes under the two
  other encodings, and a PDF from which neither a text layer nor page images can be
  read. A directory \<open>dup\<close> with two delimited files, the first with two columns that
  both hold \<open>desc\<close> in their name. A directory \<open>tz\<close> with two delimited files, the dates
  of the first written with a UTC offset. A spreadsheet \<open>xl/e.xlsx\<close> whose table has no
  description column.

  The conversions of pandas are given by their answers on the entries of these
  tables: \<open>to_datetime\<close> reads the two ISO dates and the date with an offset, whose
  instant is nine hours into the day, \<open>with_time_zone\<close> holds of the column with the
  offset, and \<open>to_numeric\<close> reads decimal notation as \<open>float\<close> does.
\<close>

definition statement_table :: raw_table where
  "statement_table =
     [(ascii ''Data'', [ascii ''2024-03-15'', ascii ''2024-03-01'']),
      (ascii ''Valor'', [ascii ''abc'', ascii ''10,50'']),
      (ascii ''Descricao'', [ascii ''taxa'', ascii ''juros''])]"

definition incomplete_table :: raw_table where
  "incomplete_table =
     [(ascii ''Data'', [ascii ''2024-03-15'']), (ascii ''Valor'', [ascii ''10,50''])]"

definition wide_table :: raw_table where
  "wide_table =
     [(ascii ''Data'', [ascii ''2024-03-15'']), (ascii ''Valor'', [ascii ''-2,00'']),
      (ascii ''Desc'', [ascii ''taxa'']), (ascii ''description'', [ascii ''mensal''])]"

definition offset_table :: raw_table where
  "offset_table =
     [(ascii ''Data'', [ascii ''2024-03-15T10:00:00+01:00'']), (ascii ''Valor'', [ascii ''-2,00'']),
      (ascii ''Desc'', [ascii ''taxa''])]"

definition example_files :: "path list" where
  "example_files = [ascii ''in/a.csv'', ascii ''in/b.txt'', ascii ''in/c.csv'', ascii ''in/d.pdf'']"

definition dup_files :: "path list" where
  "dup_files = [ascii ''dup/a.csv'', ascii ''dup/b.csv'']"

definition tz_files :: "path list" where
  "tz_files = [ascii ''tz/a.csv'', ascii ''tz/b.csv'']"

definition example_world :: world where
  "example_world =
     \<lparr>path_exists = (\<lambda>p. p \<in> set (example_files @ dup_files @ tz_files @ [ascii ''xl/e.xlsx''])),
      glob = (\<lambda>d.
        if d = ascii ''in'' then example_files
        else if d = ascii ''dup'' then dup_files
        else if d = ascii ''tz'' then tz_files
        else []),
      text_layer = (\<lambda>p. None),
      ocr = (\<lambda>p. None),
      read_csv = (\<lambda>p e.
        if p = ascii ''in/a.csv'' then Loaded incomplete_table
        else if p = ascii ''in/c.csv''
        then (case e of UTF_8 \<Rightarrow> DecodeError | _ \<Rightarrow> Loaded statement_table)
        else if p = ascii ''dup/a.csv'' then Loaded wide_table
        else if p = ascii ''tz/a.csv'' then Loaded offset_table
        else if p = ascii ''dup/b.csv'' \<or> p = ascii ''tz/b.csv'' then Loaded statement_table
        else ReadError),
      read_excel = (\<lambda>p. if p = ascii ''xl/e.xlsx'' then Some incomplete_table else None),
      to_datetime = (\<lambda>s.
        if s = ascii ''2024-03-15'' then make_timestamp 2024 3 15
        else if s = ascii ''2024-03-01'' then make_timestamp 2024 3 1
        else if s = ascii ''2024-03-15T10:00:00+01:00''
        then map_option (\<lambda>t. t + 32400000000000) (make_timestamp 2024 3 15)
        else None),
      with_time_zone = (\<lambda>col. col = [ascii ''2024-03-15T10:00:00+01:00'']),
      to_numeric = py_float\<rparr>"

section \<open>The text parser: amounts and classification\<close>

lemma classify_Num:
  "classify desc (Num x) =
     (if has_indicator debit_indicators desc then Inr (Num (if x > 0 then - x else x), DEBIT)
      else if has_indicator credit_indicators desc
      then Inr (Num (if x < 0 then \<bar>x\<bar> else x), CREDIT)
      else Inr (Num x, UNKNOWN))"
  by (simp add: classify_def)

text \<open>
  C2. The amount that the parser reads from a line holding \<open>1.234,56\<close>, \<open>-12,34\<close>
  or the euro sign, a blank and \<open>45,00\<close>. The first pattern, \<open>-?\d+[\.,]\d{2}\<close>, is
  tried before the pattern with thousands separators and matches \<open>1.23\<close> at the
  start of \<open>1.234,56\<close>; the point is then removed, and the amount read is 123, not
  1234.56. The two other texts give -12.34 and 45.
\<close>

theorem amount_round_trip_on_code:
  "extract_amount (ascii ''1.234,56'') = Some (Num 123)
   \<and> extract_amount (ascii ''-12,34'') = Some (Num (- (1234 / 100)))
   \<and> extract_amount (8364 # ascii '' 45,00'') = Some (Num 45)"
  by code_simp

text \<open>
  C9. A line that is not blank, has a date (its own or the carried one) and a numeric
  amount, and whose description holds a debit keyword, gives a record of type DEBIT
  whose amount is the extracted one made non-positive. Nothing is asked of the credit
  keywords: they are looked at only when no debit keyword is found.
\<close>

theorem debit_keyword_wins:
  assumes "has_indicator debit_indicators (extract_description line)"
    and "py_strip line \<noteq> []"
    and "find_date date_patterns line = Some d
         \<or> (find_date date_patterns line = None \<and> current_date st = Some d)"
    and "extract_amount line = Some (Num x)"
  shows "\<exists>st1. parse_line st line =
           Inr (st1\<lparr>transactions := transactions st @
                  [\<lparr>date = d, description = extract_description line,
                    amount = Num (if x > 0 then - x else x), txn_type = DEBIT\<rparr>]\<rparr>)
         \<and> nonpositive (Num (if x > 0 then - x else x))"
  using assms by (auto simp: parse_line_def classify_Num Let_def)

theorem debit_keyword_wins_witness:
  "has_indicator debit_indicators (extract_description (ascii ''01/03/2024 CREDITO DB 5,00''))
   \<and> has_indicator credit_indicators (extract_description (ascii ''01/03/2024 CREDITO DB 5,00''))
   \<and> (\<exists>st1. parse_line initial_state (ascii ''01/03/2024 CREDITO DB 5,00'') =
           Inr (st1\<lparr>transactions := transactions initial_state @
                  [\<lparr>date = ascii ''01/03/2024'', description = ascii ''CREDITO DB'',
                    amount = Num (- 5), txn_type = DEBIT\<rparr>]\<rparr>))"
proof -
  let ?l = "ascii ''01/03/2024 CREDITO DB 5,00''"
  have h1: "has_indicator debit_indicators (extract_description ?l)" by code_simp
  have h2: "py_strip ?l \<noteq> []" by code_simp
  have h3: "find_date date_patterns ?l = Some (ascii ''01/03/2024'')" by code_simp
  have h4: "extract_amount ?l = Some (Num 5)" by code_simp
  have h5: "has_indicator credit_indicators (extract_description ?l)" by code_simp
  have h6: "extract_description ?l = ascii ''CREDITO DB''" by code_simp
  from debit_keyword_wins [OF h1 h2 disjI1 [OF h3] h4, of initial_state] h1 h5
  show ?thesis unfolding h6 by simp
qed

section \<open>The text parser: dates and the carried date\<close>

lemma first_some_digits2:
  "first_some f (candidates (digits 2) s) =
     (case s of a # b # t \<Rightarrow> if py_isdigit a \<and> py_isdigit b then f t else None | _ \<Rightarrow> None)"
  by (auto simp: digits_def eval_nat_numeral split: list.splits option.splits)

lemma first_some_digits4:
  "first_some f (candidates (digits 4) s) =
     (case s of a # b # c # d # t \<Rightarrow>
        if py_isdigit a \<and> py_isdigit b \<and> py_isdigit c \<and> py_isdigit d then f t else None
      | _ \<Rightarrow> None)"
  by (auto simp: digits_def eval_nat_numeral split: list.splits option.splits)

lemma first_some_lit:
  "first_some f (candidates (lit c) s) =
     (case s of a # t \<Rightarrow> if a = c then f t else None | _ \<Rightarrow> None)"
  by (auto simp: lit_def split: list.splits option.splits)


lemma date_dash_shape:
  "match_here date_dash s = Some r \<Longrightarrow>
     \<exists>a b c d e f g h. s = a # b # 45 # c # d # 45 # e # f # g # h # r \<and> py_isdigit a \<and> py_isdigit b"
  by (auto simp: date_dash_def first_some_digits2 first_some_digits4 first_some_lit
      split: list.splits if_splits)

lemma date_iso_shape:
  "match_here date_iso s = Some r \<Longrightarrow>
     \<exists>a b c d e f g h. s = a # b # c # d # 45 # e # f # 45 # g # h # r
        \<and> py_isdigit a \<and> py_isdigit b \<and> py_isdigit c"
  by (auto simp: date_iso_def first_some_digits2 first_some_digits4 first_some_lit
      split: list.splits if_splits)

lemma finditer_matches:
  "m \<in> set (finditer p l) \<Longrightarrow>
     \<exists>s r. match_here p s = Some r \<and> m = take (length s - length r) s"
proof (induction p l rule: finditer.induct)
  case (1 p)
  then obtain r where "match_here p [] = Some r" "m = []"
    by (cases "match_here p []") auto
  then have "match_here p [] = Some r \<and> m = take (length ([]::ustring) - length r) []"
    by simp
  then show ?case by blast
next
  case (2 p c cs)
  show ?case
  proof (cases "match_here p (c # cs)")
    case None
    with 2 show ?thesis by auto
  next
    case (Some r)
    show ?thesis
    proof (cases "length r < length (c # cs)")
      case True
      with "2.prems" Some
      have "m = take (length (c # cs) - length r) (c # cs) \<or> m \<in> set (finditer p r)"
        by simp
      then show ?thesis
      proof
        assume "m = take (length (c # cs) - length r) (c # cs)"
        with Some show ?thesis by blast
      next
        assume "m \<in> set (finditer p r)"
        with "2.IH"(2) Some True show ?thesis by blast
      qed
    next
      case False
      with "2.prems" Some have "m = [] \<or> m \<in> set (finditer p cs)"
        by simp
      then show ?thesis
      proof
        assume "m = []"
        with False have "m = take (length (c # cs) - length r) (c # cs)" by simp
        with Some show ?thesis by blast
      next
        assume "m \<in> set (finditer p cs)"
        with "2.IH"(3) Some False show ?thesis by blast
      qed
    qed
  qed
qed

lemma digit_ge_48: "py_isdigit c \<Longrightarrow> 48 \<le> c"
  by (auto simp: py_isdigit_def py_decimal_def split: if_splits)




lemma dash_not_dmy:
  "m \<in> set (finditer date_dash l) \<Longrightarrow> to_datetime_dmy m = None"
proof -
  assume "m \<in> set (finditer date_dash l)"
  then obtain s r where "match_here date_dash s = Some r" "m = take (length s - length r) s"
    using finditer_matches by blast
  then obtain a b c d e f g h where "m = [a, b, 45, c, d, 45, e, f, g, h]" "py_isdigit a" "py_isdigit b"
    using date_dash_shape by fastforce
  then show ?thesis using digit_ge_48 [of a] digit_ge_48 [of b]
    by (auto simp: to_datetime_dmy_def split: option.splits if_splits)
qed

lemma iso_not_dmy:
  "m \<in> set (finditer date_iso l) \<Longrightarrow> to_datetime_dmy m = None"
proof -
  assume "m \<in> set (finditer date_iso l)"
  then obtain s r where "match_here date_iso s = Some r" "m = take (length s - length r) s"
    using finditer_matches by blast
  then obtain a b c d e f g h where "m = [a, b, c, d, 45, e, f, 45, g, h]"
      "py_isdigit a" "py_isdigit b" "py_isdigit c"
    using date_iso_shape by fastforce
  then show ?thesis using digit_ge_48 [of a] digit_ge_48 [of b] digit_ge_48 [of c]
    by (auto simp: to_datetime_dmy_def split: option.splits if_splits)
qed







section \<open>Sorting\<close>

lemma set_insert_row: "set (insert_row r xs) = insert r (set xs)"
  by (induction xs) auto

lemma set_sort_values: "set (sort_values xs) = set xs"
  by (induction xs) (auto simp: sort_values_def set_insert_row)

lemma mset_insert_row: "mset (insert_row r xs) = add_mset r (mset xs)"
  by (induction xs) auto

lemma mset_sort_values: "mset (sort_values xs) = mset xs"
  by (induction xs) (auto simp: sort_values_def mset_insert_row)

lemma date_le_total: "date_le a b \<or> date_le b a"
  by (cases a; cases b) auto

lemma date_le_trans: "date_le a b \<Longrightarrow> date_le b c \<Longrightarrow> date_le a c"
  by (cases a; cases b; cases c) auto

lemma date_sorted_insert_row: "date_sorted xs \<Longrightarrow> date_sorted (insert_row r xs)"
proof (induction xs)
  case Nil
  then show ?case by (simp add: date_sorted_def)
next
  case (Cons x xs)
  show ?case
  proof (cases "date_le (date r) (date x)")
    case True
    with Cons.prems show ?thesis
      by (auto simp: date_sorted_def intro: date_le_trans)
  next
    case False
    then have "date_le (date x) (date r)" using date_le_total by blast
    with False Cons show ?thesis
      by (auto simp: date_sorted_def set_insert_row)
  qed
qed

lemma date_sorted_sort_values: "date_sorted (sort_values xs)"
proof (induction xs)
  case Nil
  then show ?case by (simp add: sort_values_def date_sorted_def)
next
  case (Cons x xs)
  then show ?case using date_sorted_insert_row [of "sort_values xs" x]
    by (simp add: sort_values_def)
qed

lemma date_sorted_Nil: "date_sorted []"
  by (simp add: date_sorted_def)


lemma set_finish_table: "set (finish_table rows) = convert_date ` set rows"
  by (simp add: finish_table_def set_sort_values)

section \<open>The text parser: the loop over the lines\<close>

lemma try_matches_not_NaN: "a \<noteq> Some NaN \<Longrightarrow> try_matches ms a \<noteq> Some NaN"
  by (induction ms arbitrary: a) (auto split: option.splits)

lemma try_patterns_not_NaN: "a \<noteq> Some NaN \<Longrightarrow> try_patterns ps l a \<noteq> Some NaN"
proof (induction ps arbitrary: a)
  case Nil
  then show ?case by simp
next
  case (Cons p ps)
  show ?case
  proof (cases "try_matches (finditer p l) a")
    case None
    with Cons.IH [of None] show ?thesis by simp
  next
    case (Some v)
    with try_matches_not_NaN [OF Cons.prems, of "finditer p l"] show ?thesis by simp
  qed
qed

lemma extract_amount_not_NaN: "extract_amount l \<noteq> Some NaN"
  by (simp add: extract_amount_def try_patterns_not_NaN)












section \<open>The text parser: the conversion of the dates\<close>

text \<open>
  C10. A record of the parser whose date text is a match of the pattern
  \<open>\d{2}-\d{2}-\d{4}\<close> or of \<open>\d{4}-\d{2}-\d{2}\<close> is in the output table with the
  unparsed-date marker: the conversion reads the format \<open>%d/%m/%Y\<close> only.
\<close>

theorem dash_iso_dates_unparsed:
  assumes "parse_lines initial_state (py_split 10 text) = Inr st"
    and "r \<in> set (transactions st)"
    and "date r \<in> set (finditer date_dash line) \<or> date r \<in> set (finditer date_iso line)"
  shows "\<exists>out. parse_text_content text = Inr out \<and> convert_date r \<in> set out
           \<and> date (convert_date r) = None"
proof -
  from assms(3) have "to_datetime_dmy (date r) = None"
    using dash_not_dmy iso_not_dmy by blast
  then have "date (convert_date r) = None" by (simp add: convert_date_def)
  moreover from assms(1) have "parse_text_content text = Inr (finish_table (transactions st))"
    by (simp add: parse_text_content_def)
  moreover from assms(2) have "convert_date r \<in> set (finish_table (transactions st))"
    by (simp add: set_finish_table)
  ultimately show ?thesis by blast
qed

theorem dash_iso_dates_unparsed_witness:
  "parse_text_content (ascii ''2024-03-01 PAGAMENTO 5,00'' @ [10] @ ascii ''02-03-2024 JUROS 1,00'') =
     Inr [\<lparr>date = None, description = ascii ''PAGAMENTO'', amount = Num (- 5), txn_type = DEBIT\<rparr>,
          \<lparr>date = None, description = ascii ''JUROS'', amount = Num 1, txn_type = UNKNOWN\<rparr>]"
proof -
  let ?t = "ascii ''2024-03-01 PAGAMENTO 5,00'' @ [10] @ ascii ''02-03-2024 JUROS 1,00''"
  let ?r1 = "\<lparr>date = ascii ''2024-03-01'', description = ascii ''PAGAMENTO'',
               amount = Num (- 5), txn_type = DEBIT\<rparr>"
  let ?r2 = "\<lparr>date = ascii ''02-03-2024'', description = ascii ''JUROS'',
               amount = Num 1, txn_type = UNKNOWN\<rparr>"
  let ?st = "\<lparr>current_date = Some (ascii ''02-03-2024''), transactions = [?r1, ?r2]\<rparr>"
  have h1: "parse_lines initial_state (py_split 10 ?t) = Inr ?st" by code_simp
  have h2: "?r1 \<in> set (transactions ?st)" by simp
  have h3: "date ?r1 \<in> set (finditer date_iso (ascii ''2024-03-01 PAGAMENTO 5,00''))" by code_simp
  have h4: "parse_text_content ?t =
     Inr [\<lparr>date = None, description = ascii ''PAGAMENTO'', amount = Num (- 5), txn_type = DEBIT\<rparr>,
          \<lparr>date = None, description = ascii ''JUROS'', amount = Num 1, txn_type = UNKNOWN\<rparr>]"
    by code_simp
  from dash_iso_dates_unparsed [OF h1 h2 disjI2 [OF h3]] h4 show ?thesis by simp
qed

section \<open>The order of the outputs\<close>

text \<open>
  C7. The table returned by the text parser, by the standardizer and by the directory
  aggregator is in ascending order of date, the rows without a date after the rows
  with one (\<open>date_sorted\<close>; no date is below a date in \<open>date_le\<close>).
\<close>

theorem outputs_sorted_by_date:
  "(parse_text_content text = Inr t1 \<longrightarrow> date_sorted t1)
   \<and> (standardize_dataframe W df = Inr t2 \<longrightarrow> date_sorted t2)
   \<and> (process_directory W self directory = Inr t3 \<longrightarrow> date_sorted t3)"
proof (intro conjI impI)
  assume "parse_text_content text = Inr t1"
  then show "date_sorted t1"
    by (auto simp: parse_text_content_def finish_table_def date_sorted_sort_values date_sorted_Nil
        split: sum.splits if_splits)
next
  assume "standardize_dataframe W df = Inr t2"
  then show "date_sorted t2"
    by (auto simp: standardize_dataframe_def date_sorted_sort_values
        split: list.splits sum.splits)
next
  assume "process_directory W self directory = Inr t3"
  then show "date_sorted t3"
    by (auto simp: process_directory_def Let_def date_sorted_sort_values date_sorted_Nil
        split: option.splits if_splits)
qed


theorem outputs_sorted_by_date_witness:
  "(\<exists>t1. parse_text_content
           (ascii ''05/03/2024 COMPRA 3,00'' @ [10] @ ascii ''2024-03-02 JUROS 1,00'' @ [10]
            @ ascii ''01/03/2024 DEPOSITO 10,00'') = Inr t1
         \<and> map date t1 = [make_timestamp 2024 3 1, make_timestamp 2024 3 5, None]
         \<and> date_sorted t1)
   \<and> (\<exists>t2. standardize_dataframe example_world statement_table = Inr t2
         \<and> map date t2 = [make_timestamp 2024 3 1, make_timestamp 2024 3 15]
         \<and> date_sorted t2)
   \<and> (\<exists>t3. process_directory example_world (new_processor None) (Some (ascii ''in'')) = Inr t3
         \<and> map date t3 = [make_timestamp 2024 3 1, make_timestamp 2024 3 15]
         \<and> date_sorted t3)"
proof -
  let ?text = "ascii ''05/03/2024 COMPRA 3,00'' @ [10] @ ascii ''2024-03-02 JUROS 1,00'' @ [10]
            @ ascii ''01/03/2024 DEPOSITO 10,00''"
  let ?t1 = "[\<lparr>date = make_timestamp 2024 3 1, description = ascii ''DEPOSITO'',
                amount = Num 10, txn_type = CREDIT\<rparr>,
              \<lparr>date = make_timestamp 2024 3 5, description = ascii ''COMPRA'',
                amount = Num (- 3), txn_type = DEBIT\<rparr>,
              \<lparr>date = None, description = ascii ''JUROS'',
                amount = Num 1, txn_type = UNKNOWN\<rparr>]"
  let ?t2 = "[\<lparr>date = make_timestamp 2024 3 1, description = ascii ''juros'',
                amount = Num (21 / 2), txn_type = CREDIT\<rparr>,
              \<lparr>date = make_timestamp 2024 3 15, description = ascii ''taxa'',
                amount = NaN, txn_type = DEBIT\<rparr>]"
  let ?t3 = "[\<lparr>date = make_timestamp 2024 3 1, description = ascii ''juros'',
                amount = Num (21 / 2), txn_type = CREDIT, source_file = ascii ''c.csv''\<rparr>,
              \<lparr>date = make_timestamp 2024 3 15, description = ascii ''taxa'',
                amount = NaN, txn_type = DEBIT, source_file = ascii ''c.csv''\<rparr>]"
  have h1: "parse_text_content ?text = Inr ?t1" by code_simp
  have h2: "standardize_dataframe example_world statement_table = Inr ?t2" by code_simp
  have h3: "process_directory example_world (new_processor None) (Some (ascii ''in'')) = Inr ?t3"
    by code_simp
  from outputs_sorted_by_date [of ?text ?t1 example_world statement_table ?t2
      "new_processor None" "Some (ascii ''in'')" ?t3] h1 h2 h3
  show ?thesis by simp
qed


section \<open>The sign invariant\<close>

lemma classify_sign:
  "classify desc a = Inr (a', ty) \<Longrightarrow> a \<noteq> NaN \<Longrightarrow>
     sign_ok \<lparr>date = d, description = s, amount = a', txn_type = ty\<rparr>"
  by (cases a) (auto simp: classify_def sign_ok_def split: if_splits)

lemma parse_line_sign:
  assumes "parse_line st l = Inr st'" and "\<forall>r\<in>set (transactions st). sign_ok r"
  shows "\<forall>r\<in>set (transactions st'). sign_ok r"
proof (cases "py_strip l = []")
  case True
  with assms show ?thesis by (simp add: parse_line_def)
next
  case False
  define st1 where "st1 = (case find_date date_patterns l of
      Some d \<Rightarrow> st\<lparr>current_date := Some d\<rparr> | None \<Rightarrow> st)"
  have tr: "transactions st1 = transactions st"
    by (simp add: st1_def split: option.splits)
  define dm where "dm = (case find_date date_patterns l of
      Some d \<Rightarrow> Some d | None \<Rightarrow> current_date st1)"
  have pl: "parse_line st l =
     (case dm of None \<Rightarrow> Inr st1
      | Some d \<Rightarrow>
          (case extract_amount l of None \<Rightarrow> Inr st1
           | Some a \<Rightarrow>
               (case classify (extract_description l) a of Inl e \<Rightarrow> Inl e
                | Inr (a', ty) \<Rightarrow>
                    Inr (st1\<lparr>transactions := transactions st1 @
                          [\<lparr>date = d, description = extract_description l, amount = a',
                            txn_type = ty\<rparr>]\<rparr>))))"
    unfolding st1_def dm_def parse_line_def Let_def using False
    by (simp split: option.splits)
  show ?thesis
  proof (cases dm)
    case None
    with pl assms tr show ?thesis by simp
  next
    case (Some d)
    show ?thesis
    proof (cases "extract_amount l")
      case None
      with pl Some assms tr show ?thesis by simp
    next
      case (Some a)
      then have "a \<noteq> NaN" using extract_amount_not_NaN [of l] by auto
      with pl \<open>dm = Some d\<close> Some assms tr show ?thesis
        by (auto simp: classify_sign split: sum.splits)
    qed
  qed
qed

lemma parse_lines_sign:
  "parse_lines st ls = Inr st' \<Longrightarrow> \<forall>r\<in>set (transactions st). sign_ok r \<Longrightarrow>
     \<forall>r\<in>set (transactions st'). sign_ok r"
proof (induction ls arbitrary: st)
  case Nil
  then show ?case by simp
next
  case (Cons l ls)
  from Cons.prems(1) obtain st1 where a: "parse_line st l = Inr st1"
      and b: "parse_lines st1 ls = Inr st'"
    by (auto split: sum.splits)
  from parse_line_sign [OF a Cons.prems(2)] Cons.IH [OF b] show ?case by blast
qed

lemma sign_ok_convert_date: "sign_ok (convert_date r) = sign_ok r"
  by (simp add: sign_ok_def convert_date_def)

lemma make_row_sign:
  "(case amount (make_row W c) of
      Num x \<Rightarrow> sign_ok (make_row W c)
    | _ \<Rightarrow> amount (make_row W c) = NaN \<and> txn_type (make_row W c) = DEBIT)"
  by (cases c) (auto simp: make_row_def amount_of_cell_def sign_ok_def split: option.splits)

lemma standardize_rows:
  "standardize_dataframe W df = Inr out \<Longrightarrow> \<exists>rows. out = sort_values (map (make_row W) rows)"
  by (auto simp: standardize_dataframe_def split: list.splits sum.splits)

text \<open>
  C1, the example against the invariant as a property of both producers. The
  standardizer turns an amount entry that is not a number into the missing-amount
  marker and derives the type from the test \<open>x > 0\<close>, which is false of the marker: the
  record is typed DEBIT, and its amount is not a number below or equal to zero.
\<close>

theorem sign_invariant_fails_on_missing_amount:
  "standardize_dataframe example_world
     [(ascii ''date'', [ascii ''2024-03-15'']), (ascii ''amount'', [ascii ''n/a'']),
      (ascii ''desc'', [ascii ''taxa''])]
     = Inr [\<lparr>date = make_timestamp 2024 3 15, description = ascii ''taxa'', amount = NaN,
             txn_type = DEBIT\<rparr>]
   \<and> \<not> sign_ok \<lparr>date = make_timestamp 2024 3 15, description = ascii ''taxa'', amount = NaN,
             txn_type = DEBIT\<rparr>"
  by code_simp

text \<open>
  C1. Every record in a table of the text parser satisfies the sign invariant: a
  DEBIT has an amount at most zero and a CREDIT an amount at least zero. A record in a
  table of the standardizer satisfies it when its amount is a number; the only other
  amount is the missing-amount marker, and its record is typed DEBIT.
\<close>

theorem sign_invariant:
  "(parse_text_content text = Inr t1 \<and> r1 \<in> set t1 \<longrightarrow> sign_ok r1)
   \<and> (standardize_dataframe W df = Inr t2 \<and> r2 \<in> set t2 \<longrightarrow>
        (case amount r2 of
           Num x \<Rightarrow> sign_ok r2
         | _ \<Rightarrow> amount r2 = NaN \<and> txn_type r2 = DEBIT))"
proof (intro conjI impI)
  assume a: "parse_text_content text = Inr t1 \<and> r1 \<in> set t1"
  then obtain st where st: "parse_lines initial_state (py_split 10 text) = Inr st"
      and t1: "t1 = finish_table (transactions st)"
    by (auto simp: parse_text_content_def split: sum.splits)
  have "\<forall>r\<in>set (transactions initial_state). sign_ok r" by (simp add: initial_state_def)
  with parse_lines_sign [OF st] have "\<forall>r\<in>set (transactions st). sign_ok r" by blast
  with a t1 show "sign_ok r1" by (auto simp: set_finish_table sign_ok_convert_date)
next
  assume a: "standardize_dataframe W df = Inr t2 \<and> r2 \<in> set t2"
  then obtain rows where "t2 = sort_values (map (make_row W) rows)"
    using standardize_rows by blast
  with a obtain c where "r2 = make_row W c" by (auto simp: set_sort_values)
  then show "case amount r2 of
           Num x \<Rightarrow> sign_ok r2
         | _ \<Rightarrow> amount r2 = NaN \<and> txn_type r2 = DEBIT"
    using make_row_sign [of W c] by (auto split: amount.splits)
qed

theorem sign_invariant_witness:
  "parse_text_content (ascii ''05/03/2024 COMPRA 3,00'') =
     Inr [\<lparr>date = make_timestamp 2024 3 5, description = ascii ''COMPRA'', amount = Num (- 3),
            txn_type = DEBIT\<rparr>]
   \<and> sign_ok \<lparr>date = make_timestamp 2024 3 5, description = ascii ''COMPRA'', amount = Num (- 3),
            txn_type = DEBIT\<rparr>
   \<and> (\<exists>t2. standardize_dataframe example_world statement_table = Inr t2
         \<and> \<lparr>date = make_timestamp 2024 3 1, description = ascii ''juros'',
              amount = Num (21 / 2), txn_type = CREDIT\<rparr> \<in> set t2)
   \<and> sign_ok \<lparr>date = make_timestamp 2024 3 1, description = ascii ''juros'',
              amount = Num (21 / 2), txn_type = CREDIT\<rparr>"
proof -
  let ?text = "ascii ''05/03/2024 COMPRA 3,00''"
  let ?r1 = "\<lparr>date = make_timestamp 2024 3 5, description = ascii ''COMPRA'', amount = Num (- 3),
            txn_type = DEBIT\<rparr>"
  let ?r2 = "\<lparr>date = make_timestamp 2024 3 1, description = ascii ''juros'',
              amount = Num (21 / 2), txn_type = CREDIT\<rparr>"
  let ?t2 = "[?r2, \<lparr>date = make_timestamp 2024 3 15, description = ascii ''taxa'',
                amount = NaN, txn_type = DEBIT\<rparr>]"
  have h1: "parse_text_content ?text = Inr [?r1]" by code_simp
  have h2: "standardize_dataframe example_world statement_table = Inr ?t2" by code_simp
  from sign_invariant [of ?text "[?r1]" ?r1 example_world statement_table ?t2 ?r2] h1 h2
  show ?thesis by simp
qed


section \<open>The directory aggregator: failures after the loop\<close>

lemma failed_file_is_skipped:
  "process_statement W f = Inl e \<Longrightarrow> collect W (f # fs) acc = collect W fs acc"
  by simp

text \<open>
  C3. A file on which \<open>process_statement\<close> fails is skipped by the loop of
  \<open>process_directory\<close> (\<open>failed_file_is_skipped\<close>), but the merge and the sort of the
  tables come after the loop and are not guarded. In the directory \<open>dup\<close> no file
  fails; the table of the first file has two columns labelled \<open>description\<close>, that
  of the second has one, and \<open>process_directory\<close> fails with \<open>InvalidIndexError\<close>.
  In the directory \<open>tz\<close> no file fails; the dates of the first file have a time
  zone, those of the second have none, and \<open>process_directory\<close> fails with
  \<open>TypeError\<close>. Neither failure is \<open>NoDirectorySpecified\<close>.
\<close>

theorem batch_raises_after_the_loop:
  "process_statement example_world (ascii ''dup/a.csv'') =
     Inr (Some \<lparr>records = [\<lparr>date = make_timestamp 2024 3 15, description = ascii ''taxa'',
                               amount = Num (- 2), txn_type = DEBIT\<rparr>],
                 description_columns = 2, tz_aware = False\<rparr>)
   \<and> process_statement example_world (ascii ''dup/b.csv'') =
     Inr (Some \<lparr>records = [\<lparr>date = make_timestamp 2024 3 1, description = ascii ''juros'',
                               amount = Num (21 / 2), txn_type = CREDIT\<rparr>,
                             \<lparr>date = make_timestamp 2024 3 15, description = ascii ''taxa'',
                               amount = NaN, txn_type = DEBIT\<rparr>],
                 description_columns = 1, tz_aware = False\<rparr>)
   \<and> process_directory example_world (new_processor None) (Some (ascii ''dup''))
       = Inl InvalidIndexError
   \<and> process_statement example_world (ascii ''tz/a.csv'') =
     Inr (Some \<lparr>records = [\<lparr>date = map_option (\<lambda>t. t + 32400000000000)
                                        (make_timestamp 2024 3 15),
                               description = ascii ''taxa'',
                               amount = Num (- 2), txn_type = DEBIT\<rparr>],
                 description_columns = 1, tz_aware = True\<rparr>)
   \<and> process_directory example_world (new_processor None) (Some (ascii ''tz''))
       = Inl TypeError"
  by code_simp

section \<open>Delimited files: failures of the standardizer\<close>

lemma standardized_frame_error:
  "standardized_frame W df = Inl e \<longleftrightarrow> standardize_dataframe W df = Inl e"
  by (auto simp: standardized_frame_def split: sum.splits)

lemma csv_attempts_error: "csv_attempts W p es = Inl e \<Longrightarrow> e = UnrecodableFile"
  by (induction es) (auto split: csv_result.splits sum.splits)

lemma csv_attempts_all_fail:
  "\<forall>enc\<in>set es. \<forall>df. read_csv W p enc = Loaded df \<longrightarrow> isl (standardize_dataframe W df) \<Longrightarrow>
     csv_attempts W p es = Inl UnrecodableFile"
proof (induction es)
  case Nil
  then show ?case by simp
next
  case (Cons enc es)
  show ?case
  proof (cases "read_csv W p enc")
    case (Loaded df)
    with Cons.prems have "isl (standardize_dataframe W df)" by simp
    then obtain e where "standardize_dataframe W df = Inl e"
      by (cases "standardize_dataframe W df") auto
    then have "standardized_frame W df = Inl e" by (simp add: standardized_frame_error)
    with Loaded Cons show ?thesis by simp
  qed (use Cons in auto)
qed

lemma extensions:
  "ascii ''.csv'' \<in> set supported_extensions" "ascii ''.csv'' \<noteq> ascii ''.pdf''"
  "ascii ''.xlsx'' \<in> set supported_extensions" "ascii ''.xlsx'' \<noteq> ascii ''.pdf''"
  "ascii ''.xlsx'' \<noteq> ascii ''.csv''"
  "ascii ''.xls'' \<in> set supported_extensions" "ascii ''.xls'' \<noteq> ascii ''.pdf''"
  "ascii ''.xls'' \<noteq> ascii ''.csv''"
  by (simp_all add: supported_extensions_def ascii_def)

text \<open>
  C6. When a delimited file is loaded under an encoding and the standardizer fails on
  its table, with \<open>MissingColumns\<close> or with any other error, the loop goes on with
  the next encoding, as it does after a decoding error. So for an existing file with
  the suffix \<open>.csv\<close> the only failure of \<open>process_statement\<close> is \<open>UnrecodableFile\<close>,
  and it is the outcome when under every encoding the file is not decoded, not read,
  or gives a table on which the standardizer fails. For a spreadsheet whose table
  lacks a column, \<open>process_statement\<close> fails with \<open>MissingColumns\<close>.
\<close>

theorem csv_failure_is_unrecodable:
  "(read_csv W p enc = Loaded df \<and> standardize_dataframe W df = Inl err
    \<longrightarrow> csv_attempts W p (enc # encs) = csv_attempts W p encs)
   \<and> (path_exists W p \<and> py_lower (suffix_of p) = ascii ''.csv''
    \<longrightarrow> (process_statement W p = Inl e \<longrightarrow> e = UnrecodableFile)
        \<and> ((\<forall>enc df. read_csv W p enc = Loaded df \<longrightarrow> isl (standardize_dataframe W df))
           \<longrightarrow> process_statement W p = Inl UnrecodableFile))
   \<and> (path_exists W q \<and> py_lower (suffix_of q) \<in> {ascii ''.xlsx'', ascii ''.xls''}
        \<and> read_excel W q = Some tbl \<and> standardize_dataframe W tbl = Inl MissingColumns
    \<longrightarrow> process_statement W q = Inl MissingColumns)"
proof (intro conjI impI)
  assume "read_csv W p enc = Loaded df \<and> standardize_dataframe W df = Inl err"
  then show "csv_attempts W p (enc # encs) = csv_attempts W p encs"
    by (simp add: standardized_frame_error [symmetric])
next
  assume a: "path_exists W p \<and> py_lower (suffix_of p) = ascii ''.csv''"
    and b: "process_statement W p = Inl e"
  from a have ps: "process_statement W p = map_sum id Some (process_csv W p)"
    by (simp add: process_statement_def Let_def extensions)
  with b have "process_csv W p = Inl e" by (cases "process_csv W p") auto
  then show "e = UnrecodableFile" unfolding process_csv_def by (rule csv_attempts_error)
next
  assume a: "path_exists W p \<and> py_lower (suffix_of p) = ascii ''.csv''"
    and b: "\<forall>enc df. read_csv W p enc = Loaded df \<longrightarrow> isl (standardize_dataframe W df)"
  from a have ps: "process_statement W p = map_sum id Some (process_csv W p)"
    by (simp add: process_statement_def Let_def extensions)
  from b have "csv_attempts W p [UTF_8, ISO_8859_1, CP1252] = Inl UnrecodableFile"
    by (intro csv_attempts_all_fail) blast
  with ps show "process_statement W p = Inl UnrecodableFile" by (simp add: process_csv_def)
next
  assume a: "path_exists W q \<and> py_lower (suffix_of q) \<in> {ascii ''.xlsx'', ascii ''.xls''}
        \<and> read_excel W q = Some tbl \<and> standardize_dataframe W tbl = Inl MissingColumns"
  then have "standardized_frame W tbl = Inl MissingColumns"
    by (simp add: standardized_frame_error)
  with a have "process_excel W q = Inl MissingColumns" by (simp add: process_excel_def)
  moreover from a have "process_statement W q = map_sum id Some (process_excel W q)"
    by (auto simp: process_statement_def Let_def supported_extensions_def ascii_def)
  ultimately show "process_statement W q = Inl MissingColumns" by simp
qed

theorem csv_failure_is_unrecodable_witness:
  "read_csv example_world (ascii ''in/a.csv'') UTF_8 = Loaded incomplete_table
   \<and> standardize_dataframe example_world incomplete_table = Inl MissingColumns
   \<and> csv_attempts example_world (ascii ''in/a.csv'') [UTF_8, ISO_8859_1, CP1252]
       = csv_attempts example_world (ascii ''in/a.csv'') [ISO_8859_1, CP1252]
   \<and> process_statement example_world (ascii ''in/a.csv'') = Inl UnrecodableFile
   \<and> read_excel example_world (ascii ''xl/e.xlsx'') = Some incomplete_table
   \<and> process_statement example_world (ascii ''xl/e.xlsx'') = Inl MissingColumns"
proof -
  let ?p = "ascii ''in/a.csv''"
  let ?q = "ascii ''xl/e.xlsx''"
  have h1: "path_exists example_world ?p \<and> py_lower (suffix_of ?p) = ascii ''.csv''"
    by code_simp
  have h3: "standardize_dataframe example_world incomplete_table = Inl MissingColumns" by code_simp
  have h4: "read_csv example_world ?p enc = Loaded incomplete_table" for enc
    by (simp add: example_world_def)
  have h5: "\<forall>enc df. read_csv example_world ?p enc = Loaded df \<longrightarrow>
          isl (standardize_dataframe example_world df)"
    by (simp add: h4 h3)
  have h6: "path_exists example_world ?q
      \<and> py_lower (suffix_of ?q) \<in> {ascii ''.xlsx'', ascii ''.xls''}
      \<and> read_excel example_world ?q = Some incomplete_table" by code_simp
  note T = csv_failure_is_unrecodable [where W = example_world and p = ?p and enc = UTF_8
      and df = incomplete_table and err = MissingColumns and encs = "[ISO_8859_1, CP1252]"
      and q = ?q and tbl = incomplete_table]
  from T h4 h3
  have a: "csv_attempts example_world ?p [UTF_8, ISO_8859_1, CP1252]
       = csv_attempts example_world ?p [ISO_8859_1, CP1252]" by blast
  from T h1 h5 have b: "process_statement example_world ?p = Inl UnrecodableFile" by blast
  from T h6 h3 have c: "process_statement example_world ?q = Inl MissingColumns" by blast
  from a b c h3 h4 [of UTF_8] h6 show ?thesis by blast
qed

section \<open>The standardizer: rows without an amount\<close>

text \<open>
  C5, the example against the claim. The amount entry \<open>abc\<close> does not coerce to a
  number, and its row is in the table that the standardizer returns, with the
  missing-amount marker as its amount and the type DEBIT.
\<close>

theorem unparseable_amount_row_is_kept:
  "to_numeric example_world (py_replace 44 [46] (ascii ''abc'')) = None
   \<and> standardize_dataframe example_world statement_table =
       Inr [\<lparr>date = make_timestamp 2024 3 1, description = ascii ''juros'',
              amount = Num (21 / 2), txn_type = CREDIT\<rparr>,
            \<lparr>date = make_timestamp 2024 3 15, description = ascii ''taxa'',
              amount = NaN, txn_type = DEBIT\<rparr>]"
  by code_simp

text \<open>
  C5. The standardizer drops no row. When the three fields have a column and the
  renamed table gives the rows \<open>rows\<close>, the output has one record for each of them,
  and a row whose amount entry does not coerce to a number after the replacement of
  the comma is in the output with the missing-amount marker and the type DEBIT.
\<close>

theorem no_row_is_dropped:
  assumes "columns_for date_terms df = d # ds"
    and "columns_for amount_terms df = a # as"
    and "columns_for desc_terms df = s # ss"
    and "canonical_rows (rename_columns d a s df) = Inr rows"
  shows "\<exists>out. standardize_dataframe W df = Inr out
           \<and> mset out = mset (map (make_row W) rows)
           \<and> (\<forall>(dt, de, am)\<in>set rows.
                 to_numeric W (py_replace 44 [46] am) = None \<longrightarrow>
                 \<lparr>date = to_datetime W dt, description = de, amount = NaN,
                   txn_type = DEBIT\<rparr> \<in> set out)"
proof -
  let ?out = "sort_values (map (make_row W) rows)"
  from assms have a: "standardize_dataframe W df = Inr ?out"
    by (simp add: standardize_dataframe_def)
  have b: "mset ?out = mset (map (make_row W) rows)" by (rule mset_sort_values)
  have c: "\<forall>(dt, de, am)\<in>set rows.
                 to_numeric W (py_replace 44 [46] am) = None \<longrightarrow>
                 \<lparr>date = to_datetime W dt, description = de, amount = NaN,
                   txn_type = DEBIT\<rparr> \<in> set ?out"
  proof (clarify)
    fix dt de am
    assume r: "(dt, de, am) \<in> set rows" and n: "to_numeric W (py_replace 44 [46] am) = None"
    from n have "make_row W (dt, de, am) =
        \<lparr>date = to_datetime W dt, description = de, amount = NaN, txn_type = DEBIT\<rparr>"
      by (simp add: make_row_def amount_of_cell_def)
    with r show "\<lparr>date = to_datetime W dt, description = de, amount = NaN,
                   txn_type = DEBIT\<rparr> \<in> set ?out"
      by (force simp: set_sort_values)
  qed
  from a b c show ?thesis by blast
qed

theorem no_row_is_dropped_witness:
  "canonical_rows (rename_columns (ascii ''Data'') (ascii ''Valor'') (ascii ''Descricao'')
      statement_table) =
     Inr [(ascii ''2024-03-15'', ascii ''taxa'', ascii ''abc''),
          (ascii ''2024-03-01'', ascii ''juros'', ascii ''10,50'')]
   \<and> (\<exists>out. standardize_dataframe example_world statement_table = Inr out
          \<and> length out = 2
          \<and> \<lparr>date = make_timestamp 2024 3 15, description = ascii ''taxa'', amount = NaN,
               txn_type = DEBIT\<rparr> \<in> set out)"
proof -
  let ?rows = "[(ascii ''2024-03-15'', ascii ''taxa'', ascii ''abc''),
          (ascii ''2024-03-01'', ascii ''juros'', ascii ''10,50'')]"
  have h1: "columns_for date_terms statement_table = ascii ''Data'' # []" by code_simp
  have h2: "columns_for amount_terms statement_table = ascii ''Valor'' # []" by code_simp
  have h3: "columns_for desc_terms statement_table = ascii ''Descricao'' # []" by code_simp
  have h4: "canonical_rows (rename_columns (ascii ''Data'') (ascii ''Valor'') (ascii ''Descricao'')
      statement_table) = Inr ?rows" by code_simp
  have h5: "to_numeric example_world (py_replace 44 [46] (ascii ''abc'')) = None" by code_simp
  have h6: "to_datetime example_world (ascii ''2024-03-15'') = make_timestamp 2024 3 15"
    by code_simp
  from no_row_is_dropped [OF h1 h2 h3 h4, of example_world]
  obtain out where o: "standardize_dataframe example_world statement_table = Inr out"
    and m: "mset out = mset (map (make_row example_world) ?rows)"
    and k: "\<forall>(dt, de, am)\<in>set ?rows.
                 to_numeric example_world (py_replace 44 [46] am) = None \<longrightarrow>
                 \<lparr>date = to_datetime example_world dt, description = de, amount = NaN,
                   txn_type = DEBIT\<rparr> \<in> set out"
    by blast
  from m have "size (mset out) = size (mset (map (make_row example_world) ?rows))" by simp
  then have "length out = 2" by simp
  moreover from k h5 have "\<lparr>date = to_datetime example_world (ascii ''2024-03-15''),
      description = ascii ''taxa'', amount = NaN, txn_type = DEBIT\<rparr> \<in> set out"
    by simp
  ultimately show ?thesis using o h4 unfolding h6 by blast
qed


section \<open>The standardizer: the resolution of the columns\<close>



















end
